theory Spec2Isabelle
  imports Main
begin

section \<open>JavaScript values, objects and errors\<close>

text \<open>
  The sources hold two versions of the command. The older one,
  \<^verbatim>\<open>src/plugin-dev-phone/src/commands/dev-phone.js\<close>, comes first; the later one, written
  in TypeScript, follows in its own section. Both work on plain JavaScript objects whose
  properties are strings. An object is a map from property
  names to values; a property that is absent reads as \<^verbatim>\<open>undefined\<close>, here \<open>None\<close>.
\<close>

type_synonym obj = "string \<rightharpoonup> string"

datatype js_error =
    TwilioCliError string
  | TypeError string
  | ReferenceError string
  | Error string

text \<open>Truthiness of a string-valued property: \<^verbatim>\<open>undefined\<close> and the empty string are falsy.\<close>

definition truthy :: "string option \<Rightarrow> bool" where
  "truthy v = (case v of None \<Rightarrow> False | Some s \<Rightarrow> s \<noteq> [])"

text \<open>\<^verbatim>\<open>s.startsWith(p)\<close>\<close>

definition startsWith :: "string \<Rightarrow> string \<Rightarrow> bool" where
  "startsWith s p = (take (length p) s = p)"

text \<open>\<^verbatim>\<open>xs.join(sep)\<close>\<close>

fun join :: "string \<Rightarrow> string list \<Rightarrow> string" where
  "join sep [] = []"
| "join sep [x] = x"
| "join sep (x # y # ys) = x @ sep @ join sep (y # ys)"

text \<open>Sequencing of steps that may throw: the first exception ends the sequence.\<close>

definition andThen :: "js_error + 'a \<Rightarrow> ('a \<Rightarrow> js_error + 'b) \<Rightarrow> js_error + 'b" where
  "andThen m f = (case m of Inl e \<Rightarrow> Inl e | Inr x \<Rightarrow> f x)"

section \<open>The remote account\<close>

text \<open>
  The Twilio client is an external collaborator. It is modelled as a reliable store: per
  kind a list of resources, the incoming phone numbers, the sids and secrets it will hand
  out next, and the log of the calls it has received (oldest first). Rejected requests
  are outside the model.
\<close>

datatype kind = Conversation | SyncService | Key | Application

datatype call =
    ListCall kind
  | CreateCall kind "(string \<times> string) list"
  | RemoveCall kind "string option"
  | ListNumbersCall string

record remote =
  accountSid :: string
  resources :: "kind \<Rightarrow> obj list"
  incomingPhoneNumbers :: "obj list"
  sidSupply :: "kind \<Rightarrow> nat \<Rightarrow> string"
  secretSupply :: "nat \<Rightarrow> string"
  issued :: nat
  calls :: "call list"

text \<open>\<^verbatim>\<open>.list()\<close>\<close>

definition remoteList :: "kind \<Rightarrow> remote \<Rightarrow> obj list \<times> remote" where
  "remoteList k r = (resources r k, r\<lparr>calls := calls r @ [ListCall k]\<rparr>)"

text \<open>
  \<^verbatim>\<open>.create({...})\<close>: the new resource has the properties given and a sid chosen by the
  remote side; a new key is returned together with its secret.
\<close>

definition remoteCreate :: "kind \<Rightarrow> (string \<times> string) list \<Rightarrow> remote \<Rightarrow> obj \<times> remote" where
  "remoteCreate k params r =
     (let item = (map_of params)(''sid'' \<mapsto> sidSupply r k (issued r));
          returned = (if k = Key then item(''secret'' \<mapsto> secretSupply r (issued r)) else item)
      in (returned,
          r\<lparr>resources := (resources r)(k := resources r k @ [item]),
            issued := Suc (issued r),
            calls := calls r @ [CreateCall k params]\<rparr>))"

text \<open>\<^verbatim>\<open>(sid).remove()\<close>\<close>

definition remoteRemove :: "kind \<Rightarrow> string option \<Rightarrow> remote \<Rightarrow> remote" where
  "remoteRemove k s r =
     r\<lparr>resources := (resources r)(k := filter (\<lambda>item. item ''sid'' \<noteq> s) (resources r k)),
       calls := calls r @ [RemoveCall k s]\<rparr>"

text \<open>\<^verbatim>\<open>incomingPhoneNumbers.list({ phoneNumber })\<close>\<close>

definition remoteListNumbers :: "string \<Rightarrow> remote \<Rightarrow> obj list \<times> remote" where
  "remoteListNumbers n r =
     (filter (\<lambda>p. p ''phoneNumber'' = Some n) (incomingPhoneNumbers r),
      r\<lparr>calls := calls r @ [ListNumbersCall n]\<rparr>)"

section \<open>Access tokens\<close>

text \<open>
  \<^verbatim>\<open>AccessToken\<close>, \<^verbatim>\<open>ChatGrant\<close>, \<^verbatim>\<open>VoiceGrant\<close> and \<^verbatim>\<open>SyncGrant\<close> come from the Twilio helper
  library. A grant stores the options it is built with. The constructor of the token
  rejects a missing account sid, key sid or secret with a plain \<^verbatim>\<open>Error\<close>; \<open>ttl\<close> is the
  validity window in seconds that the caller passes in the options, \<open>None\<close> when the
  caller passes none and the library's own default applies. The signed string returned
  by \<^verbatim>\<open>toJwt()\<close> is represented by the token it encodes.
\<close>

datatype grant =
    ChatGrant "string option"
  | VoiceGrant bool "string option"
  | SyncGrant "string option"

record accessToken =
  tokenAccountSid :: string
  keySid :: string
  secret :: string
  identity :: string
  ttl :: "nat option"
  grants :: "grant list"

definition AccessToken ::
  "string \<Rightarrow> string option \<Rightarrow> string option \<Rightarrow> string \<Rightarrow> nat option \<Rightarrow> js_error + accessToken" where
  "AccessToken acc ksid sec ident ttlOption =
     (if acc = [] then Inl (Error ''accountSid is required'')
      else if \<not> truthy ksid then Inl (Error ''keySid is required'')
      else if \<not> truthy sec then Inl (Error ''secret is required'')
      else Inr \<lparr>tokenAccountSid = acc, keySid = the ksid, secret = the sec,
                identity = ident, ttl = ttlOption, grants = []\<rparr>)"

definition addGrant :: "grant \<Rightarrow> accessToken \<Rightarrow> accessToken" where
  "addGrant g token = token\<lparr>grants := grants token @ [g]\<rparr>"

section \<open>The command object\<close>

record profile =
  apiKey :: string
  apiSecret :: string

record settings =
  conversation :: "obj option"
  sync :: "obj option"
  phoneNumber :: "obj option"

record devphone =
  cliSettings :: settings
  pns :: "obj list"
  jwt :: "accessToken option"
  apikey :: obj
  twimlApp :: obj
  devPhoneName :: string
  currentProfile :: profile
  twilioClient :: remote

text \<open>
  \<^verbatim>\<open>generateRandomPhoneName\<close>: the argument is the run of at most six decimal digits cut
  out of \<^verbatim>\<open>Math.random().toString()\<close>.
\<close>

definition generateRandomPhoneName :: "string \<Rightarrow> string" where
  "generateRandomPhoneName rand = ''dev-phone-'' @ rand"

text \<open>
  The constructor. The profile and the client are set up by the base class in
  \<^verbatim>\<open>super.run()\<close>; they are given here.
\<close>

definition DevPhoneServer :: "string \<Rightarrow> profile \<Rightarrow> remote \<Rightarrow> devphone" where
  "DevPhoneServer rand prof client =
     \<lparr>cliSettings = \<lparr>conversation = None, sync = None, phoneNumber = None\<rparr>,
      pns = [], jwt = None, apikey = Map.empty, twimlApp = Map.empty,
      devPhoneName = generateRandomPhoneName rand,
      currentProfile = prof, twilioClient = client\<rparr>"

subsection \<open>createJwt\<close>

text \<open>
  Reading \<^verbatim>\<open>.sid\<close> of \<^verbatim>\<open>this.cliSettings.conversation\<close> or \<^verbatim>\<open>this.cliSettings.sync\<close> throws a
  \<^verbatim>\<open>TypeError\<close> while that setting is still undefined; \<^verbatim>\<open>this.twimlApp\<close> and \<^verbatim>\<open>this.apikey\<close>
  start as empty objects, so reading their properties yields \<^verbatim>\<open>undefined\<close>. The only
  option passed to the token is the identity.
\<close>

definition createJwt :: "devphone \<Rightarrow> js_error + accessToken" where
  "createJwt this =
     (case conversation (cliSettings this) of
        None \<Rightarrow> Inl (TypeError ''Cannot read properties of undefined (reading 'sid')'')
      | Some conv \<Rightarrow>
          (let chatGrant = ChatGrant (conv ''sid'');
               voiceGrant = VoiceGrant True (twimlApp this ''sid'')
           in case sync (cliSettings this) of
                None \<Rightarrow> Inl (TypeError ''Cannot read properties of undefined (reading 'sid')'')
              | Some sy \<Rightarrow>
                  (let syncGrant = SyncGrant (sy ''sid'')
                   in andThen
                        (AccessToken (accountSid (twilioClient this))
                           (apikey this ''sid'') (apikey this ''secret'')
                           (devPhoneName this) None)
                        (\<lambda>token. Inr (addGrant syncGrant
                                         (addGrant voiceGrant
                                            (addGrant chatGrant token)))))))"

subsection \<open>Destroying resources\<close>

text \<open>
  The filter of the four destroy methods:
  \<^verbatim>\<open>item => item.friendlyname && item.friendlyName.startsWith('dev-phone')\<close>.
  The left operand reads the property \<^verbatim>\<open>friendlyname\<close>, all in lower case; the right one
  reads \<^verbatim>\<open>friendlyName\<close>, and calling \<^verbatim>\<open>startsWith\<close> on \<^verbatim>\<open>undefined\<close> throws.
\<close>

definition isDevPhoneItem :: "obj \<Rightarrow> js_error + bool" where
  "isDevPhoneItem item =
     (if truthy (item ''friendlyname'')
      then (case item ''friendlyName'' of
              None \<Rightarrow> Inl (TypeError ''Cannot read properties of undefined (reading 'startsWith')'')
            | Some n \<Rightarrow> Inr (startsWith n ''dev-phone''))
      else Inr False)"

fun filterItems :: "obj list \<Rightarrow> js_error + obj list" where
  "filterItems [] = Inr []"
| "filterItems (item # items) =
     andThen (isDevPhoneItem item) (\<lambda>keep.
     andThen (filterItems items) (\<lambda>rest.
     Inr (if keep then item # rest else rest)))"

text \<open>\<^verbatim>\<open>for (var item of items) { await ...(item.sid).remove(); }\<close>\<close>

fun removeEach :: "kind \<Rightarrow> obj list \<Rightarrow> remote \<Rightarrow> remote" where
  "removeEach k [] r = r"
| "removeEach k (item # items) r = removeEach k items (remoteRemove k (item ''sid'') r)"

text \<open>The body shared by the four destroy methods: list, filter, remove each match.\<close>

definition destroyListed :: "kind \<Rightarrow> devphone \<Rightarrow> js_error + devphone" where
  "destroyListed k this =
     (case remoteList k (twilioClient this) of
        (items, r) \<Rightarrow>
          andThen (filterItems items) (\<lambda>matched.
          Inr (this\<lparr>twilioClient := removeEach k matched r\<rparr>)))"

definition twilioCliIsConfiguredWithApiKey :: "devphone \<Rightarrow> bool" where
  "twilioCliIsConfiguredWithApiKey this = startsWith (apiKey (currentProfile this)) ''SK''"

definition destroyConversations :: "devphone \<Rightarrow> js_error + devphone" where
  "destroyConversations this = destroyListed Conversation this"

definition destroyTwimlApps :: "devphone \<Rightarrow> js_error + devphone" where
  "destroyTwimlApps this = destroyListed Application this"

definition destroySyncs :: "devphone \<Rightarrow> js_error + devphone" where
  "destroySyncs this = destroyListed SyncService this"

definition destroyApiKeys :: "devphone \<Rightarrow> js_error + devphone" where
  "destroyApiKeys this =
     (if twilioCliIsConfiguredWithApiKey this then Inr this
      else destroyListed Key this)"

subsection \<open>Creating resources\<close>

definition createConversation :: "devphone \<Rightarrow> js_error + obj \<times> devphone" where
  "createConversation this =
     andThen (destroyConversations this) (\<lambda>this.
       case remoteCreate Conversation [(''friendlyName'', devPhoneName this)] (twilioClient this) of
         (item, r) \<Rightarrow> Inr (item, this\<lparr>twilioClient := r\<rparr>))"

definition createSync :: "devphone \<Rightarrow> js_error + obj \<times> devphone" where
  "createSync this =
     andThen (destroySyncs this) (\<lambda>this.
       case remoteCreate SyncService [(''friendlyName'', devPhoneName this)] (twilioClient this) of
         (item, r) \<Rightarrow> Inr (item, this\<lparr>twilioClient := r\<rparr>))"

definition createTwimlApp :: "devphone \<Rightarrow> js_error + obj \<times> devphone" where
  "createTwimlApp this =
     andThen (destroyTwimlApps this) (\<lambda>this.
       case remoteCreate Application
              [(''voiceUrl'', ''https://dev-phone-6880.twil.io/outbound-call''),
               (''friendlyName'', devPhoneName this)] (twilioClient this) of
         (item, r) \<Rightarrow> Inr (item, this\<lparr>twilioClient := r\<rparr>))"

text \<open>The object returned is \<^verbatim>\<open>{ sid, secret }\<close> taken from the profile.\<close>

definition profileKey :: "devphone \<Rightarrow> obj" where
  "profileKey this =
     [''sid'' \<mapsto> apiKey (currentProfile this), ''secret'' \<mapsto> apiSecret (currentProfile this)]"

text \<open>
  A key read back from the remote side always has a sid and a secret; should one be
  missing, the profile field is stored as the empty string here.
\<close>

definition reuseOrCreateApiKey :: "devphone \<Rightarrow> js_error + obj \<times> devphone" where
  "reuseOrCreateApiKey this =
     (if twilioCliIsConfiguredWithApiKey this then Inr (profileKey this, this)
      else
        andThen (destroyApiKeys this) (\<lambda>this.
          case remoteCreate Key [(''friendlyName'', devPhoneName this)] (twilioClient this) of
            (key, r) \<Rightarrow>
              (let this = this\<lparr>twilioClient := r,
                              currentProfile :=
                                \<lparr>apiKey = (case key ''sid'' of None \<Rightarrow> [] | Some s \<Rightarrow> s),
                                 apiSecret = (case key ''secret'' of None \<Rightarrow> [] | Some s \<Rightarrow> s)\<rparr>\<rparr>
               in Inr (profileKey this, this))))"

subsection \<open>validatePropsAndFlags\<close>

text \<open>\<^verbatim>\<open>reformatTwilioPns\<close> keeps four properties of every phone number.\<close>

definition reformatPn :: "obj \<Rightarrow> obj" where
  "reformatPn p =
     (\<lambda>name. if name \<in> set [''phoneNumber'', ''friendlyName'', ''smsUrl'', ''voiceUrl'']
             then p name else None)"

definition reformatTwilioPns :: "obj list \<Rightarrow> obj list" where
  "reformatTwilioPns twilioResponse = map reformatPn twilioResponse"

text \<open>
  The flags are an object indexed by flag name. \<^verbatim>\<open>isSmsUrlSet\<close> and \<^verbatim>\<open>isVoiceUrlSet\<close> are
  imported from \<^verbatim>\<open>../phone-number-utils\<close>, which is not part of the sources at hand; they
  are parameters.
\<close>

definition validatePropsAndFlags ::
  "(string option \<Rightarrow> bool) \<Rightarrow> (string option \<Rightarrow> bool) \<Rightarrow> obj \<Rightarrow> devphone \<Rightarrow> js_error + devphone" where
  "validatePropsAndFlags isSmsUrlSet isVoiceUrlSet flags this =
     (if truthy (flags ''phone-number'')
      then
        (case remoteListNumbers (the (flags ''phone-number'')) (twilioClient this) of
           (found, r) \<Rightarrow>
             (let this = this\<lparr>pns := found, twilioClient := r\<rparr>
              in case found of
                   [] \<Rightarrow> Inl (TwilioCliError
                              (''The phone number '' @ the (flags ''phone-number'') @
                               '' is not associated with your Twilio account''))
                 | first # _ \<Rightarrow>
                     (let pnConfigAlreadySet =
                            (if isSmsUrlSet (first ''smsUrl'') then [''SMS webhook URL''] else []) @
                            (if isVoiceUrlSet (first ''voiceUrl'') then [''Voice webhook URL''] else [])
                      in if length pnConfigAlreadySet > 0
                         then Inl (TwilioCliError
                                     (''Cannot use '' @ the (flags ''phone-number'') @
                                      '' because the following config for that phone number would be overwritten: '' @
                                      join '', '' pnConfigAlreadySet))
                         else Inr (this\<lparr>cliSettings :=
                                          (cliSettings this)\<lparr>phoneNumber :=
                                             Some (hd (reformatTwilioPns found))\<rparr>\<rparr>))))
      else Inr this)"

subsection \<open>run\<close>

text \<open>
  The part of \<^verbatim>\<open>run\<close> that provisions: validation of the flags, then the conversation, the
  sync service, the API key, the TwiML app and the token, each stored in the command
  object. Afterwards \<^verbatim>\<open>run\<close> registers the interrupt handler and the HTTP handlers.
\<close>

definition run ::
  "(string option \<Rightarrow> bool) \<Rightarrow> (string option \<Rightarrow> bool) \<Rightarrow> obj \<Rightarrow> devphone \<Rightarrow> js_error + devphone" where
  "run isSmsUrlSet isVoiceUrlSet flags this =
     andThen (validatePropsAndFlags isSmsUrlSet isVoiceUrlSet flags this) (\<lambda>this.
     andThen (createConversation this) (\<lambda>(item, this).
     let this = this\<lparr>cliSettings := (cliSettings this)\<lparr>conversation := Some item\<rparr>\<rparr> in
     andThen (createSync this) (\<lambda>(item, this).
     let this = this\<lparr>cliSettings := (cliSettings this)\<lparr>sync := Some item\<rparr>\<rparr> in
     andThen (reuseOrCreateApiKey this) (\<lambda>(key, this).
     let this = this\<lparr>apikey := key\<rparr> in
     andThen (createTwimlApp this) (\<lambda>(item, this).
     let this = this\<lparr>twimlApp := item\<rparr> in
     andThen (createJwt this) (\<lambda>token.
     Inr (this\<lparr>jwt := Some token\<rparr>)))))))"

subsection \<open>The interrupt handler\<close>

text \<open>
  The handler registered for \<^verbatim>\<open>SIGINT\<close> is a plain function nested in \<^verbatim>\<open>run\<close>. It calls
  \<^verbatim>\<open>destroyConversations()\<close>, \<^verbatim>\<open>destroyTwimlApps()\<close>, \<^verbatim>\<open>destroyApiKeys()\<close> and
  \<^verbatim>\<open>destroySyncs()\<close> as free identifiers, not through \<^verbatim>\<open>this\<close>. The identifiers bound
  around the handler are the module's constants and functions, the class, the locals of
  \<^verbatim>\<open>run\<close>, and the globals the module uses; the methods of the class are properties of the
  instance and are none of them. Evaluating an unbound identifier throws a \<^verbatim>\<open>ReferenceError\<close>.
\<close>

definition boundIdentifiers :: "string list" where
  "boundIdentifiers =
     [''flags'', ''TwilioClientCommand'', ''TwilioCliError'', ''AccessToken'', ''ChatGrant'',
      ''VoiceGrant'', ''SyncGrant'', ''isSmsUrlSet'', ''isVoiceUrlSet'', ''express'', ''PORT'',
      ''reformatTwilioPns'', ''generateRandomPhoneName'', ''DevPhoneServer'', ''props'', ''app'',
      ''require'', ''module'', ''process'', ''console'']"

definition lookupIdentifier :: "string \<Rightarrow> js_error + unit" where
  "lookupIdentifier name =
     (if name \<in> set boundIdentifiers then Inr ()
      else Inl (ReferenceError (name @ '' is not defined'')))"

text \<open>
  The \<^verbatim>\<open>try\<close> block. Each call first evaluates its identifier; the method of the same name
  stands for what a bound identifier would call.
\<close>

definition handlerTryBlock :: "devphone \<Rightarrow> js_error + devphone" where
  "handlerTryBlock this =
     andThen (lookupIdentifier ''destroyConversations'') (\<lambda>_.
     andThen (destroyConversations this) (\<lambda>this.
     andThen (lookupIdentifier ''destroyTwimlApps'') (\<lambda>_.
     andThen (destroyTwimlApps this) (\<lambda>this.
     andThen (lookupIdentifier ''destroyApiKeys'') (\<lambda>_.
     andThen (destroyApiKeys this) (\<lambda>this.
     andThen (lookupIdentifier ''destroySyncs'') (\<lambda>_.
     destroySyncs this)))))))"

text \<open>
  The outcome of the handler: the exception caught by \<^verbatim>\<open>catch\<close>, if any, the command
  object when \<^verbatim>\<open>process.exit()\<close> is reached, and the exit status. \<^verbatim>\<open>process.exit()\<close> is
  called without a code and no exit code has been set, so the status is 0. An exception
  thrown by the identifier lookup leaves the command object as it was.
\<close>

record handlerOutcome =
  caught :: "js_error option"
  finalState :: devphone
  exitStatus :: nat

definition sigintHandler :: "devphone \<Rightarrow> handlerOutcome" where
  "sigintHandler this =
     (case handlerTryBlock this of
        Inl e \<Rightarrow> \<lparr>caught = Some e, finalState = this, exitStatus = 0\<rparr>
      | Inr this' \<Rightarrow> \<lparr>caught = None, finalState = this', exitStatus = 0\<rparr>)"

text \<open>
  The sweep of the four destroy methods in the order of the handler, each called on the
  command object.
\<close>

definition destroySweep :: "devphone \<Rightarrow> js_error + devphone" where
  "destroySweep this =
     andThen (destroyConversations this) (\<lambda>this.
     andThen (destroyTwimlApps this) (\<lambda>this.
     andThen (destroyApiKeys this) (\<lambda>this.
     destroySyncs this)))"

subsection \<open>Observations on the remote account\<close>

text \<open>The resources of a kind whose label starts with a given name.\<close>

definition labelled :: "string \<Rightarrow> kind \<Rightarrow> remote \<Rightarrow> obj list" where
  "labelled name k r =
     filter (\<lambda>item. case item ''friendlyName'' of None \<Rightarrow> False | Some n \<Rightarrow> startsWith n name)
       (resources r k)"

text \<open>
  The validity window of a token in seconds. The helper library falls back to one hour
  when the options carry no \<^verbatim>\<open>ttl\<close> (\<^verbatim>\<open>options.ttl || 3600\<close>).
\<close>

definition validitySeconds :: "accessToken \<Rightarrow> nat" where
  "validitySeconds token = (case ttl token of None \<Rightarrow> 3600 | Some t \<Rightarrow> if t = 0 then 3600 else t)"

subsection \<open>Phone-number utilities\<close>

text \<open>
  Modelled from the spec: \<^verbatim>\<open>isSmsUrlSet\<close> and \<^verbatim>\<open>isVoiceUrlSet\<close> of \<^verbatim>\<open>phone-number-utils\<close>
  are missing from the sources. The spec says that a phone number may only be bound if
  it currently has no configured SMS or voice webhook, and that unbinding resets these
  fields to empty: a URL is set when it is present and not the empty string.
\<close>

definition isUrlSet :: "string option \<Rightarrow> bool" where
  "isUrlSet url = (case url of None \<Rightarrow> False | Some u \<Rightarrow> u \<noteq> [])"

subsection \<open>Sample inputs\<close>

text \<open>
  An account with no resources and one phone number that already has an SMS webhook, and a
  profile that carries the account credentials (so that a key has to be created).
\<close>

definition sampleSids :: "kind \<Rightarrow> nat \<Rightarrow> string" where
  "sampleSids k n =
     (case k of Conversation \<Rightarrow> ''CH'' | SyncService \<Rightarrow> ''IS'' | Key \<Rightarrow> ''SK'' | Application \<Rightarrow> ''AP'')
     @ replicate n (CHR ''0'')"

definition sampleAccount :: remote where
  "sampleAccount =
     \<lparr>accountSid = ''AC1'',
      resources = (\<lambda>k. []),
      incomingPhoneNumbers =
        [[''phoneNumber'' \<mapsto> ''+15551234567'', ''friendlyName'' \<mapsto> ''main line'',
          ''smsUrl'' \<mapsto> ''https://example.com/sms'', ''voiceUrl'' \<mapsto> []]],
      sidSupply = sampleSids,
      secretSupply = (\<lambda>n. ''s3cret''),
      issued = 0,
      calls = []\<rparr>"

definition accountProfile :: profile where
  "accountProfile = \<lparr>apiKey = ''AC1'', apiSecret = ''authtoken''\<rparr>"

definition sampleSession :: devphone where
  "sampleSession = DevPhoneServer ''123456'' accountProfile sampleAccount"

text \<open>Flags that select the sample number and carry a further flag named \<^verbatim>\<open>force\<close>.\<close>

definition forcedFlags :: obj where
  "forcedFlags = [''phone-number'' \<mapsto> ''+15551234567'', ''force'' \<mapsto> ''true'']"

text \<open>The sample session after \<^verbatim>\<open>run\<close> has provisioned it, started without flags.\<close>

definition provisionedSample :: devphone where
  "provisionedSample =
     (case run isUrlSet isUrlSet Map.empty sampleSession of
        Inl e \<Rightarrow> sampleSession
      | Inr this \<Rightarrow> this)"

section \<open>The TypeScript command\<close>

text \<open>
  The later version of the command is written in TypeScript; in the sources it follows the
  package description in \<^verbatim>\<open>src/packages/plugin-dev-phone/package.json\<close>. It is embedded
  next to the older one. A name that both versions use carries the suffix \<open>TS\<close> here.
  The choice of the port, the user agent, the console output and the opening of the
  browser touch no resource and are left out.
\<close>

subsection \<open>The remote account\<close>

text \<open>
  The collections of the client that the command lists, creates in and removes from.
  A conversation, its participant and a sync map live inside their service and go with
  it. A resource read back from the remote side has every property of its type; \<open>None\<close>
  is the value \<^verbatim>\<open>null\<close> there.
\<close>

datatype serviceKind =
  ConversationServices | Applications | Keys | SyncServices | ServerlessServices

datatype request =
    ListRequest serviceKind
  | CreateRequest serviceKind "(string \<times> string) list"
  | RemoveRequest serviceKind "string option"
  | CreateConversationRequest "string option" "(string \<times> string) list"
  | CreateParticipantRequest "string option" "string option" string
  | CreateSyncMapRequest "string option" string
  | DeployRequest "(string \<times> string option) list"
  | ListNumbersRequest "string option" "nat option"
  | UpdateNumberRequest "string option" "string option" "string option" "string option"

record account =
  accountSidTS :: string
  services :: "serviceKind \<Rightarrow> obj list"
  numbers :: "obj list"
  sidFor :: "serviceKind \<Rightarrow> nat \<Rightarrow> string"
  fresh :: "nat \<Rightarrow> string"
  used :: nat
  requests :: "request list"

definition listServices :: "serviceKind \<Rightarrow> account \<Rightarrow> obj list \<times> account" where
  "listServices k r = (services r k, r\<lparr>requests := requests r @ [ListRequest k]\<rparr>)"

definition createService :: "serviceKind \<Rightarrow> (string \<times> string) list \<Rightarrow> account \<Rightarrow> obj \<times> account" where
  "createService k params r =
     (let item = (map_of params)(''sid'' \<mapsto> sidFor r k (used r));
          returned = (if k = Keys then item(''secret'' \<mapsto> fresh r (used r)) else item)
      in (returned,
          r\<lparr>services := (services r)(k := services r k @ [item]),
            used := Suc (used r),
            requests := requests r @ [CreateRequest k params]\<rparr>))"

definition removeService :: "serviceKind \<Rightarrow> string option \<Rightarrow> account \<Rightarrow> account" where
  "removeService k s r =
     r\<lparr>services := (services r)(k := filter (\<lambda>item. item ''sid'' \<noteq> s) (services r k)),
       requests := requests r @ [RemoveRequest k s]\<rparr>"

text \<open>\<^verbatim>\<open>conversations.services(sid).conversations.create({...})\<close>\<close>

definition createConversationIn ::
  "string option \<Rightarrow> (string \<times> string) list \<Rightarrow> account \<Rightarrow> obj \<times> account" where
  "createConversationIn service params r =
     ((map_of params)(''sid'' \<mapsto> fresh r (used r)),
      r\<lparr>used := Suc (used r),
        requests := requests r @ [CreateConversationRequest service params]\<rparr>)"

text \<open>\<^verbatim>\<open>...conversations(sid).participants.create({identity})\<close>\<close>

definition createParticipant :: "string option \<Rightarrow> string option \<Rightarrow> string \<Rightarrow> account \<Rightarrow> account" where
  "createParticipant service conv ident r =
     r\<lparr>requests := requests r @ [CreateParticipantRequest service conv ident]\<rparr>"

text \<open>\<^verbatim>\<open>sync.services(sid).syncMaps.create({uniqueName})\<close>\<close>

definition createSyncMap :: "string option \<Rightarrow> string \<Rightarrow> account \<Rightarrow> account" where
  "createSyncMap service uniqueName r =
     r\<lparr>requests := requests r @ [CreateSyncMapRequest service uniqueName]\<rparr>"

text \<open>\<^verbatim>\<open>incomingPhoneNumbers.list({ phoneNumber, limit })\<close>; both options may be absent.\<close>

definition listNumbers :: "string option \<Rightarrow> nat option \<Rightarrow> account \<Rightarrow> obj list \<times> account" where
  "listNumbers wanted limit r =
     (let matches = (case wanted of
                       None \<Rightarrow> numbers r
                     | Some n \<Rightarrow> filter (\<lambda>p. p ''phoneNumber'' = Some n) (numbers r))
      in (case limit of None \<Rightarrow> matches | Some l \<Rightarrow> take l matches,
          r\<lparr>requests := requests r @ [ListNumbersRequest wanted limit]\<rparr>))"

text \<open>\<^verbatim>\<open>incomingPhoneNumbers(sid).update(props)\<close>: the properties given replace the old ones.\<close>

definition updateNumber :: "string option \<Rightarrow> obj \<Rightarrow> account \<Rightarrow> account" where
  "updateNumber s props r =
     r\<lparr>numbers := map (\<lambda>p. if p ''sid'' = s then p ++ props else p) (numbers r),
       requests := requests r @
         [UpdateNumberRequest s (props ''voiceUrl'') (props ''smsUrl'') (props ''statusCallback'')]\<rparr>"

subsection \<open>Helpers that are not in the sources\<close>

text \<open>The object \<^verbatim>\<open>{ voiceUrl, smsUrl, statusCallback }\<close>.\<close>

definition hookProps :: "string option \<Rightarrow> string option \<Rightarrow> string option \<Rightarrow> obj" where
  "hookProps v s c =
     (\<lambda>name. if name = ''voiceUrl'' then v
             else if name = ''smsUrl'' then s
             else if name = ''statusCallback'' then c
             else None)"

text \<open>
  Modelled from the spec: \<^verbatim>\<open>updatePhoneWebhooks\<close> and \<^verbatim>\<open>removePhoneWebhooks\<close> of
  \<^verbatim>\<open>utils/phone-number-utils\<close> are missing from the sources. The spec says that binding
  attaches the URLs of the webhook backend to the chosen phone number and overwrites what
  was configured before, and that unbinding resets the SMS, voice and status-callback
  fields to empty and is safe to call when no number is bound. Without a phone number
  both do nothing.
\<close>

definition updatePhoneWebhooks :: "obj option \<Rightarrow> obj \<Rightarrow> account \<Rightarrow> obj option \<times> account" where
  "updatePhoneWebhooks pn props r =
     (case pn of
        None \<Rightarrow> (None, r)
      | Some p \<Rightarrow> (Some (p ++ props), updateNumber (p ''sid'') props r))"

definition removePhoneWebhooks :: "obj option \<Rightarrow> account \<Rightarrow> account" where
  "removePhoneWebhooks pn r =
     (case pn of
        None \<Rightarrow> r
      | Some p \<Rightarrow> updateNumber (p ''sid'') (hookProps (Some []) (Some []) (Some [])) r)"

text \<open>
  Modelled from the spec: \<^verbatim>\<open>deployServerless\<close> of \<^verbatim>\<open>utils/create-serverless-util\<close> is
  missing from the sources. The spec treats it as an opaque deploy call that returns a
  domain, and has every created resource labelled with the session name: the call
  creates one serverless service labelled with the \<^verbatim>\<open>DEV_PHONE_NAME\<close> of its environment
  and returns the service sid and the domain.
\<close>

definition deployServerless :: "(string \<times> string option) list \<Rightarrow> account \<Rightarrow> obj \<times> account" where
  "deployServerless env r =
     (let s = sidFor r ServerlessServices (used r);
          item = (\<lambda>name. if name = ''sid'' then Some s
                          else if name = ''friendlyName''
                          then (case map_of env ''DEV_PHONE_NAME'' of None \<Rightarrow> None | Some v \<Rightarrow> v)
                          else None)
      in ([''serviceSid'' \<mapsto> s, ''domain'' \<mapsto> fresh r (used r)],
          r\<lparr>services := (services r)(ServerlessServices := services r ServerlessServices @ [item]),
            used := Suc (used r),
            requests := requests r @ [DeployRequest env]\<rparr>))"

text \<open>
  The handler names \<^verbatim>\<open>constants.INCOMING_CALL_HANDLER\<close> and so on belong to the same
  missing module; they are parameters.
\<close>

record handlerNames =
  INCOMING_CALL_HANDLER :: string
  OUTBOUND_CALL_HANDLER :: string
  INCOMING_MESSAGE_HANDLER :: string
  SYNC_CALL_HISTORY :: string

subsection \<open>The command object\<close>

record settingsTS =
  forceMode :: "string option"
  phoneNumberTS :: "obj option"

record devphoneTS =
  cliSettingsTS :: settingsTS
  pnsTS :: "obj list"
  jwtTS :: "accessToken option"
  apikeyTS :: obj
  twimlAppTS :: obj
  devPhoneNameTS :: string
  voiceUrl :: "string option"
  smsUrl :: "string option"
  voiceOutboundUrl :: "string option"
  statusCallback :: "string option"
  conversationTS :: "obj option"
  syncTS :: "obj option"
  serverless :: "obj option"
  currentProfileTS :: profile
  twilioClientTS :: account

definition DevPhoneServerTS :: "string \<Rightarrow> profile \<Rightarrow> account \<Rightarrow> devphoneTS" where
  "DevPhoneServerTS rand prof client =
     \<lparr>cliSettingsTS = \<lparr>forceMode = None, phoneNumberTS = None\<rparr>,
      pnsTS = [], jwtTS = None, apikeyTS = Map.empty, twimlAppTS = Map.empty,
      devPhoneNameTS = generateRandomPhoneName rand,
      voiceUrl = None, smsUrl = None, voiceOutboundUrl = None, statusCallback = None,
      conversationTS = None, syncTS = None, serverless = None,
      currentProfileTS = prof, twilioClientTS = client\<rparr>"

definition CALL_LOG_MAP_NAME :: string where
  "CALL_LOG_MAP_NAME = ''CallLog''"

text \<open>The \<^verbatim>\<open>version\<close> of the package description.\<close>

definition version :: string where
  "version = ''1.0.0-beta.5''"

text \<open>\<^verbatim>\<open>reformatTwilioPns\<close> keeps five properties of every phone number.\<close>

definition reformatPnTS :: "obj \<Rightarrow> obj" where
  "reformatPnTS p =
     (\<lambda>name. if name \<in> set [''phoneNumber'', ''friendlyName'', ''smsUrl'', ''voiceUrl'', ''sid'']
             then p name else None)"

definition reformatTwilioPnsTS :: "obj list \<Rightarrow> obj list" where
  "reformatTwilioPnsTS twilioResponse = map reformatPnTS twilioResponse"

subsection \<open>Destroying resources\<close>

text \<open>
  The filter of the destroy methods:
  \<^verbatim>\<open>x => x.friendlyName !== null && x.friendlyName.startsWith(prefix)\<close>, where the prefix
  is the name of the session, or \<^verbatim>\<open>'dev-phone'\<close> in the methods that destroy all.
\<close>

definition labelledWith :: "string \<Rightarrow> obj \<Rightarrow> bool" where
  "labelledWith prefix item =
     (case item ''friendlyName'' of None \<Rightarrow> False | Some n \<Rightarrow> startsWith n prefix)"

fun removeEachTS :: "serviceKind \<Rightarrow> obj list \<Rightarrow> account \<Rightarrow> account" where
  "removeEachTS k [] r = r"
| "removeEachTS k (item # items) r = removeEachTS k items (removeService k (item ''sid'') r)"

text \<open>The body shared by the destroy methods: list, filter, remove each match if any.\<close>

definition destroyMatching :: "string \<Rightarrow> serviceKind \<Rightarrow> account \<Rightarrow> account" where
  "destroyMatching prefix k r =
     (case listServices k r of
        (items, r) \<Rightarrow>
          (let matched = filter (labelledWith prefix) items
           in if length matched > 0 then removeEachTS k matched r else r))"

definition twilioCliIsConfiguredWithApiKeyTS :: "devphoneTS \<Rightarrow> bool" where
  "twilioCliIsConfiguredWithApiKeyTS this = startsWith (apiKey (currentProfileTS this)) ''SK''"

definition destroyConversationsTS :: "devphoneTS \<Rightarrow> devphoneTS" where
  "destroyConversationsTS this =
     this\<lparr>twilioClientTS :=
            destroyMatching (devPhoneNameTS this) ConversationServices (twilioClientTS this)\<rparr>"

definition destroyTwimlAppsTS :: "devphoneTS \<Rightarrow> devphoneTS" where
  "destroyTwimlAppsTS this =
     this\<lparr>twilioClientTS :=
            destroyMatching (devPhoneNameTS this) Applications (twilioClientTS this)\<rparr>"

definition destroyApiKeysTS :: "devphoneTS \<Rightarrow> devphoneTS" where
  "destroyApiKeysTS this =
     (if twilioCliIsConfiguredWithApiKeyTS this then this
      else this\<lparr>twilioClientTS :=
                  destroyMatching (devPhoneNameTS this) Keys (twilioClientTS this)\<rparr>)"

definition destroySyncsTS :: "devphoneTS \<Rightarrow> devphoneTS" where
  "destroySyncsTS this =
     this\<lparr>twilioClientTS :=
            destroyMatching (devPhoneNameTS this) SyncServices (twilioClientTS this)\<rparr>"


definition destroyAllConversations :: "devphoneTS \<Rightarrow> devphoneTS" where
  "destroyAllConversations this =
     this\<lparr>twilioClientTS := destroyMatching ''dev-phone'' ConversationServices (twilioClientTS this)\<rparr>"

definition destroyAllTwimlApps :: "devphoneTS \<Rightarrow> devphoneTS" where
  "destroyAllTwimlApps this =
     this\<lparr>twilioClientTS := destroyMatching ''dev-phone'' Applications (twilioClientTS this)\<rparr>"

definition destroyAllApiKeys :: "devphoneTS \<Rightarrow> devphoneTS" where
  "destroyAllApiKeys this =
     (if twilioCliIsConfiguredWithApiKeyTS this then this
      else this\<lparr>twilioClientTS := destroyMatching ''dev-phone'' Keys (twilioClientTS this)\<rparr>)"

definition destroyAllSyncs :: "devphoneTS \<Rightarrow> devphoneTS" where
  "destroyAllSyncs this =
     this\<lparr>twilioClientTS := destroyMatching ''dev-phone'' SyncServices (twilioClientTS this)\<rparr>"

definition destroyAllFunctions :: "devphoneTS \<Rightarrow> devphoneTS" where
  "destroyAllFunctions this =
     this\<lparr>twilioClientTS := destroyMatching ''dev-phone'' ServerlessServices (twilioClientTS this)\<rparr>"

text \<open>
  \<^verbatim>\<open>removeAllPhoneWebhooks\<close>. The filter calls \<^verbatim>\<open>startsWith\<close> on the SMS URL and, if that
  matches, on the voice URL of every number; on a URL that is \<^verbatim>\<open>null\<close> this throws, the
  exception is caught and logged, and no number is touched (\<open>None\<close> below).
\<close>

fun devPhoneNumbers :: "obj list \<Rightarrow> obj list option" where
  "devPhoneNumbers [] = Some []"
| "devPhoneNumbers (pn # rest) =
     (case pn ''smsUrl'' of
        None \<Rightarrow> None
      | Some s \<Rightarrow>
          if startsWith s ''https://dev-phone''
          then (case pn ''voiceUrl'' of
                  None \<Rightarrow> None
                | Some v \<Rightarrow>
                    (case devPhoneNumbers rest of
                       None \<Rightarrow> None
                     | Some ms \<Rightarrow> Some (if startsWith v ''https://dev-phone'' then pn # ms else ms)))
          else devPhoneNumbers rest)"

fun unbindEach :: "obj list \<Rightarrow> account \<Rightarrow> account" where
  "unbindEach [] r = r"
| "unbindEach (pn # rest) r =
     unbindEach rest
       (removePhoneWebhooks
          (Some (\<lambda>name. if name = ''phoneNumber'' \<or> name = ''sid'' then pn name
                        else hookProps (Some []) (Some []) (Some []) name))
          r)"

definition removeAllPhoneWebhooks :: "devphoneTS \<Rightarrow> devphoneTS" where
  "removeAllPhoneWebhooks this =
     (case listNumbers None None (twilioClientTS this) of
        (found, r) \<Rightarrow>
          (case devPhoneNumbers found of
             None \<Rightarrow> this\<lparr>twilioClientTS := r\<rparr>
           | Some numbersDevPhone \<Rightarrow>
               if length numbersDevPhone > 0
               then this\<lparr>twilioClientTS := unbindEach numbersDevPhone r\<rparr>
               else this\<lparr>twilioClientTS := r\<rparr>))"

definition deleteAll :: "devphoneTS \<Rightarrow> devphoneTS" where
  "deleteAll this =
     removeAllPhoneWebhooks
       (destroyAllFunctions
          (destroyAllSyncs
             (destroyAllApiKeys
                (destroyAllTwimlApps
                   (destroyAllConversations this)))))"

subsection \<open>Creating resources\<close>

definition profileKeyTS :: "devphoneTS \<Rightarrow> obj" where
  "profileKeyTS this =
     [''sid'' \<mapsto> apiKey (currentProfileTS this), ''secret'' \<mapsto> apiSecret (currentProfileTS this)]"

definition reuseOrCreateApiKeyTS :: "devphoneTS \<Rightarrow> obj \<times> devphoneTS" where
  "reuseOrCreateApiKeyTS this =
     (if twilioCliIsConfiguredWithApiKeyTS this then (profileKeyTS this, this)
      else
        (let this = destroyApiKeysTS this
         in case createService Keys [(''friendlyName'', devPhoneNameTS this)] (twilioClientTS this) of
              (key, r) \<Rightarrow>
                (let this = this\<lparr>twilioClientTS := r,
                                currentProfileTS :=
                                  \<lparr>apiKey = (case key ''sid'' of None \<Rightarrow> [] | Some s \<Rightarrow> s),
                                   apiSecret = (case key ''secret'' of None \<Rightarrow> [] | Some s \<Rightarrow> s)\<rparr>\<rparr>
                 in (profileKeyTS this, this))))"

text \<open>
  \<^verbatim>\<open>createConversation\<close> creates a conversation service, a conversation in it, and makes
  the dev phone a participant; it returns \<^verbatim>\<open>{ serviceSid, sid }\<close>.
\<close>

definition createConversationTS :: "devphoneTS \<Rightarrow> obj \<times> devphoneTS" where
  "createConversationTS this =
     (let this = destroyConversationsTS this
      in case createService ConversationServices [(''friendlyName'', devPhoneNameTS this)]
                (twilioClientTS this) of
           (service, r) \<Rightarrow>
             (case createConversationIn (service ''sid'') [(''friendlyName'', devPhoneNameTS this)] r of
                (newConversation, r) \<Rightarrow>
                  (let r = createParticipant (service ''sid'') (newConversation ''sid'')
                             (devPhoneNameTS this) r
                   in ((\<lambda>name. if name = ''serviceSid'' then service ''sid''
                               else if name = ''sid'' then newConversation ''sid''
                               else None),
                       this\<lparr>twilioClientTS := r\<rparr>))))"

definition createSyncTS :: "devphoneTS \<Rightarrow> obj \<times> devphoneTS" where
  "createSyncTS this =
     (let this = destroySyncsTS this
      in case createService SyncServices [(''friendlyName'', devPhoneNameTS this)]
                (twilioClientTS this) of
           (syncService, r) \<Rightarrow>
             (syncService,
              this\<lparr>twilioClientTS := createSyncMap (syncService ''sid'') CALL_LOG_MAP_NAME r\<rparr>))"

text \<open>
  \<^verbatim>\<open>createFunction\<close> reads \<^verbatim>\<open>this.sync.sid\<close> and \<^verbatim>\<open>this.conversation.sid\<close> outside any
  \<^verbatim>\<open>try\<close>; on an undefined sync service or conversation this throws.
\<close>

definition createFunction :: "handlerNames \<Rightarrow> devphoneTS \<Rightarrow> js_error + obj \<times> devphoneTS" where
  "createFunction constants this =
     (case syncTS this of
        None \<Rightarrow> Inl (TypeError ''Cannot read properties of undefined (reading 'sid')'')
      | Some sy \<Rightarrow>
          (case conversationTS this of
             None \<Rightarrow> Inl (TypeError ''Cannot read properties of undefined (reading 'sid')'')
           | Some conv \<Rightarrow>
               (case deployServerless
                       [(''SYNC_SERVICE_SID'', sy ''sid''),
                        (''CONVERSATION_SID'', conv ''sid''),
                        (''CONVERSATION_SERVICE_SID'', conv ''serviceSid''),
                        (''DEV_PHONE_NAME'', Some (devPhoneNameTS this)),
                        (''DEV_PHONE_VERSION'', Some version),
                        (''CALL_LOG_MAP_NAME'', Some CALL_LOG_MAP_NAME)]
                       (twilioClientTS this) of
                  (deployedFunctions, r) \<Rightarrow>
                    (let domain = (case deployedFunctions ''domain'' of None \<Rightarrow> ''undefined'' | Some d \<Rightarrow> d)
                     in Inr (deployedFunctions,
                             this\<lparr>twilioClientTS := r,
                                  voiceUrl := Some (''https://'' @ domain @ ''/'' @ INCOMING_CALL_HANDLER constants),
                                  voiceOutboundUrl := Some (''https://'' @ domain @ ''/'' @ OUTBOUND_CALL_HANDLER constants),
                                  smsUrl := Some (''https://'' @ domain @ ''/'' @ INCOMING_MESSAGE_HANDLER constants),
                                  statusCallback := Some (''https://'' @ domain @ ''/'' @ SYNC_CALL_HISTORY constants)\<rparr>)))))"

definition createTwimlAppTS :: "devphoneTS \<Rightarrow> obj \<times> devphoneTS" where
  "createTwimlAppTS this =
     (let this = destroyTwimlAppsTS this
      in case createService Applications
                ((case voiceOutboundUrl this of None \<Rightarrow> [] | Some u \<Rightarrow> [(''voiceUrl'', u)]) @
                 [(''friendlyName'', devPhoneNameTS this)])
                (twilioClientTS this) of
           (app, r) \<Rightarrow> (app, this\<lparr>twilioClientTS := r\<rparr>))"

subsection \<open>createJwt\<close>

definition createJwtTS :: "devphoneTS \<Rightarrow> js_error + accessToken" where
  "createJwtTS this =
     (case conversationTS this of
        None \<Rightarrow> Inl (TypeError ''Cannot read properties of undefined (reading 'serviceSid')'')
      | Some conv \<Rightarrow>
          (let chatGrant = ChatGrant (conv ''serviceSid'');
               voiceGrant = VoiceGrant True (twimlAppTS this ''sid'')
           in case syncTS this of
                None \<Rightarrow> Inl (TypeError ''Cannot read properties of undefined (reading 'sid')'')
              | Some sy \<Rightarrow>
                  (let syncGrant = SyncGrant (sy ''sid'')
                   in andThen
                        (AccessToken (accountSidTS (twilioClientTS this))
                           (apikeyTS this ''sid'') (apikeyTS this ''secret'')
                           (devPhoneNameTS this) (Some (24 * 60 * 60)))
                        (\<lambda>token. Inr (addGrant syncGrant
                                         (addGrant voiceGrant
                                            (addGrant chatGrant token)))))))"

subsection \<open>validatePropsAndFlags\<close>

definition validatePropsAndFlagsTS ::
  "(string option \<Rightarrow> bool) \<Rightarrow> (string option \<Rightarrow> bool) \<Rightarrow> obj \<Rightarrow> devphoneTS \<Rightarrow> js_error + devphoneTS" where
  "validatePropsAndFlagsTS isSmsUrlSet isVoiceUrlSet flags this =
     (let this = this\<lparr>cliSettingsTS := (cliSettingsTS this)\<lparr>forceMode := flags ''force''\<rparr>\<rparr>
      in if truthy (flags ''phone-number'')
         then
           (case listNumbers (flags ''phone-number'') None (twilioClientTS this) of
              (found, r) \<Rightarrow>
                (let this = this\<lparr>pnsTS := found, twilioClientTS := r\<rparr>
                 in case found of
                      [] \<Rightarrow> Inl (TwilioCliError
                                 (''The phone number '' @ the (flags ''phone-number'') @
                                  '' is not associated with your Twilio account''))
                    | first # _ \<Rightarrow>
                        (let pnConfigAlreadySet =
                               (if isSmsUrlSet (first ''smsUrl'') then [''SMS webhook URL''] else []) @
                               (if isVoiceUrlSet (first ''voiceUrl'') then [''Voice webhook URL''] else [])
                         in if length pnConfigAlreadySet > 0 \<and> \<not> truthy (forceMode (cliSettingsTS this))
                            then Inl (TwilioCliError
                                        (''Cannot use '' @ the (flags ''phone-number'') @
                                         '' because the following config for that phone number would be overwritten: '' @
                                         join '', '' pnConfigAlreadySet))
                            else Inr (this\<lparr>cliSettingsTS :=
                                             (cliSettingsTS this)\<lparr>phoneNumberTS :=
                                                Some (hd (reformatTwilioPnsTS found))\<rparr>\<rparr>))))
         else Inr this)"

subsection \<open>run\<close>

text \<open>
  The last step of provisioning: the webhooks of the phone number selected by the flag,
  if there is one, are set to the URLs of the deployed functions.
\<close>

definition bindPhoneNumber :: "devphoneTS \<Rightarrow> devphoneTS" where
  "bindPhoneNumber this =
     (let phoneNumberProps = hookProps (voiceUrl this) (smsUrl this) (statusCallback this)
      in case updatePhoneWebhooks (phoneNumberTS (cliSettingsTS this)) phoneNumberProps
                (twilioClientTS this) of
           (pn, r) \<Rightarrow>
             this\<lparr>cliSettingsTS := (cliSettingsTS this)\<lparr>phoneNumberTS := pn\<rparr>,
                  twilioClientTS := r\<rparr>)"

text \<open>
  The part of \<^verbatim>\<open>run\<close> that provisions. \<open>confirmed\<close> is the answer to the confirmation that
  is asked for when the \<^verbatim>\<open>clear\<close> flag is given.
\<close>

definition runTS ::
  "handlerNames \<Rightarrow> (string option \<Rightarrow> bool) \<Rightarrow> (string option \<Rightarrow> bool) \<Rightarrow> bool \<Rightarrow> obj
     \<Rightarrow> devphoneTS \<Rightarrow> js_error + devphoneTS" where
  "runTS constants isSmsUrlSet isVoiceUrlSet confirmed flags this =
     andThen (validatePropsAndFlagsTS isSmsUrlSet isVoiceUrlSet flags this) (\<lambda>this.
     case reuseOrCreateApiKeyTS this of (key, this) \<Rightarrow>
     let this = this\<lparr>apikeyTS := key\<rparr>;
         this = (if truthy (flags ''clear'') \<and> confirmed then deleteAll this else this) in
     case createConversationTS this of (conv, this) \<Rightarrow>
     let this = this\<lparr>conversationTS := Some conv\<rparr> in
     case createSyncTS this of (sy, this) \<Rightarrow>
     let this = this\<lparr>syncTS := Some sy\<rparr> in
     andThen (createFunction constants this) (\<lambda>(deployed, this).
     let this = this\<lparr>serverless := Some deployed\<rparr> in
     case createTwimlAppTS this of (app, this) \<Rightarrow>
     let this = this\<lparr>twimlAppTS := app\<rparr> in
     andThen (createJwtTS this) (\<lambda>token.
     let this = this\<lparr>jwtTS := Some token\<rparr> in
     Inr (bindPhoneNumber this))))"

subsection \<open>Shutdown\<close>





subsection \<open>Choosing another phone number\<close>

text \<open>
  The handler of \<^verbatim>\<open>/choose-phone-number\<close>. The argument is \<^verbatim>\<open>req.body.phoneNumber\<close>; the
  result is the status and the message of the response, and the command object.
\<close>

definition choosePhoneNumber :: "string option \<Rightarrow> devphoneTS \<Rightarrow> (nat \<times> string) \<times> devphoneTS" where
  "choosePhoneNumber requested this =
     (case listNumbers requested (Some 20) (twilioClientTS this) of
        (rawNumbers, r) \<Rightarrow>
          (let this = this\<lparr>twilioClientTS := r\<rparr>;
               selectedNumber = reformatTwilioPnsTS rawNumbers
           in if length selectedNumber = 1
              then
                (let r = removePhoneWebhooks (phoneNumberTS (cliSettingsTS this)) (twilioClientTS this);
                     this = this\<lparr>twilioClientTS := r,
                                 cliSettingsTS := (cliSettingsTS this)\<lparr>phoneNumberTS :=
                                    Some (hd selectedNumber)\<rparr>\<rparr>
                 in ((200, ''Phone number updated!''), bindPhoneNumber this))
              else ((400, ''Phone number not found!''), this)))"

subsection \<open>Observations and sample inputs\<close>

text \<open>
  The requests that create something, in order, and the requests one destroy method
  sends for a kind: the listing, then one removal per resource whose label starts with
  the prefix.
\<close>

fun creations :: "request list \<Rightarrow> request list" where
  "creations [] = []"
| "creations (ListRequest k # rs) = creations rs"
| "creations (RemoveRequest k s # rs) = creations rs"
| "creations (ListNumbersRequest n l # rs) = creations rs"
| "creations (UpdateNumberRequest s v m c # rs) = creations rs"
| "creations (r # rs) = r # creations rs"

definition sweepRequests :: "string \<Rightarrow> serviceKind \<Rightarrow> account \<Rightarrow> request list" where
  "sweepRequests prefix k r =
     ListRequest k #
     map (\<lambda>item. RemoveRequest k (item ''sid'')) (filter (labelledWith prefix) (services r k))"

definition sampleSidFor :: "serviceKind \<Rightarrow> nat \<Rightarrow> string" where
  "sampleSidFor k n =
     (case k of ConversationServices \<Rightarrow> ''IS'' | Applications \<Rightarrow> ''AP'' | Keys \<Rightarrow> ''SK''
              | SyncServices \<Rightarrow> ''IS'' | ServerlessServices \<Rightarrow> ''ZS'')
     @ replicate n (CHR ''0'')"

definition sampleNames :: handlerNames where
  "sampleNames =
     \<lparr>INCOMING_CALL_HANDLER = ''incoming-call'', OUTBOUND_CALL_HANDLER = ''outbound-call'',
      INCOMING_MESSAGE_HANDLER = ''incoming-message'', SYNC_CALL_HISTORY = ''sync-call-history''\<rparr>"

definition sampleAccountTS :: account where
  "sampleAccountTS =
     \<lparr>accountSidTS = ''AC1'',
      services = (\<lambda>k. []),
      numbers =
        [[''sid'' \<mapsto> ''PN1'', ''phoneNumber'' \<mapsto> ''+15551234567'', ''friendlyName'' \<mapsto> ''main line'',
          ''smsUrl'' \<mapsto> ''https://example.com/sms'', ''voiceUrl'' \<mapsto> []],
         [''sid'' \<mapsto> ''PN2'', ''phoneNumber'' \<mapsto> ''+15557654321'', ''friendlyName'' \<mapsto> ''second line'',
          ''smsUrl'' \<mapsto> [], ''voiceUrl'' \<mapsto> []]],
      sidFor = sampleSidFor,
      fresh = (\<lambda>n. ''x'' @ replicate n (CHR ''0'')),
      used = 0,
      requests = []\<rparr>"

definition sampleSessionTS :: devphoneTS where
  "sampleSessionTS = DevPhoneServerTS ''1234'' accountProfile sampleAccountTS"

text \<open>
  The sample session after \<^verbatim>\<open>run\<close> has provisioned it with the flags that select the
  first number and force the overwrite.
\<close>

definition provisionedSampleTS :: devphoneTS where
  "provisionedSampleTS =
     (case runTS sampleNames isUrlSet isUrlSet False forcedFlags sampleSessionTS of
        Inl e \<Rightarrow> sampleSessionTS
      | Inr this \<Rightarrow> this)"

text \<open>
  A session that holds a conversation, a sync service, a TwiML app and a key, and a session
  that is bound to the first number of the sample account.
\<close>

definition tokenSampleTS :: devphoneTS where
  "tokenSampleTS =
     sampleSessionTS
       \<lparr>apikeyTS := [''sid'' \<mapsto> ''SK1'', ''secret'' \<mapsto> ''s3cret''],
        twimlAppTS := [''sid'' \<mapsto> ''AP1''],
        conversationTS := Some [''serviceSid'' \<mapsto> ''IS1'', ''sid'' \<mapsto> ''CH1''],
        syncTS := Some [''sid'' \<mapsto> ''IS2'']\<rparr>"

definition boundSampleTS :: devphoneTS where
  "boundSampleTS =
     sampleSessionTS
       \<lparr>cliSettingsTS :=
          \<lparr>forceMode = None,
           phoneNumberTS = Some (reformatPnTS (hd (numbers sampleAccountTS)))\<rparr>\<rparr>"


section \<open>Facts about the older command\<close>

lemma andThen_Inr_iff: "andThen m f = Inr y \<longleftrightarrow> (\<exists>x. m = Inr x \<and> f x = Inr y)"
  by (cases m) (simp_all add: andThen_def)

text \<open>
  Resources that have no \<^verbatim>\<open>friendlyname\<close> property are never selected by the filter,
  whatever their \<^verbatim>\<open>friendlyName\<close> is: the destroy methods then list and remove nothing.
\<close>

lemma filterItems_plain:
  "\<forall>item \<in> set items. \<not> truthy (item ''friendlyname'') \<Longrightarrow> filterItems items = Inr []"
  by (induction items) (simp_all add: isDevPhoneItem_def andThen_def)

lemma destroyListed_plain:
  assumes "\<forall>item \<in> set (resources (twilioClient this) k). \<not> truthy (item ''friendlyname'')"
  shows "destroyListed k this =
           Inr (this\<lparr>twilioClient :=
                       (twilioClient this)\<lparr>calls := calls (twilioClient this) @ [ListCall k]\<rparr>\<rparr>)"
  using filterItems_plain [OF assms]
  by (simp add: destroyListed_def remoteList_def andThen_def)

subsection \<open>Evaluating the sample inputs\<close>

lemmas sample_defs =
  sampleSession_def DevPhoneServer_def sampleAccount_def accountProfile_def
  sampleSids_def generateRandomPhoneName_def

lemmas method_defs =
  run_def validatePropsAndFlags_def createConversation_def createSync_def createTwimlApp_def
  reuseOrCreateApiKey_def destroyConversations_def destroySyncs_def destroyTwimlApps_def
  destroyApiKeys_def destroyListed_def remoteList_def remoteCreate_def remoteRemove_def
  twilioCliIsConfiguredWithApiKey_def createJwt_def AccessToken_def addGrant_def profileKey_def
  isDevPhoneItem_def truthy_def startsWith_def andThen_def Let_def

lemma run_sample: "run isUrlSet isUrlSet Map.empty sampleSession = Inr provisionedSample"
  by (simp add: provisionedSample_def method_defs sample_defs)

text \<open>
  The interrupt handler never gets past its first call: the identifier is unbound, the
  exception is caught, and the process exits.
\<close>

lemma lookup_destroyConversations:
  "lookupIdentifier ''destroyConversations'' =
     Inl (ReferenceError ''destroyConversations is not defined'')"
  by (simp add: lookupIdentifier_def boundIdentifiers_def)

lemma sigintHandler_eq:
  "sigintHandler this =
     \<lparr>caught = Some (ReferenceError ''destroyConversations is not defined''),
      finalState = this, exitStatus = 0\<rparr>"
  by (simp add: sigintHandler_def handlerTryBlock_def lookup_destroyConversations andThen_def)

section \<open>Facts about the later command\<close>

lemma creations_append: "creations (xs @ ys) = creations xs @ creations ys"
  by (induction xs rule: creations.induct) simp_all

lemma creations_removals: "creations (map (\<lambda>item. RemoveRequest k (f item)) items) = []"
  by (induction items) simp_all

lemma creations_sweepRequests: "creations (sweepRequests prefix k r) = []"
  by (simp add: sweepRequests_def creations_removals)

lemma removeEachTS_requests:
  "requests (removeEachTS k items r) = requests r @ map (\<lambda>item. RemoveRequest k (item ''sid'')) items"
  by (induction items arbitrary: r) (simp_all add: removeService_def)

lemma removeEachTS_services:
  "services (removeEachTS k items r) k' =
     (if k' = k
      then filter (\<lambda>i. i ''sid'' \<notin> (\<lambda>j. j ''sid'') ` set items) (services r k)
      else services r k')"
  by (induction items arbitrary: r) (auto simp: removeService_def intro: filter_cong)

lemma removeEachTS_rest:
  "numbers (removeEachTS k items r) = numbers r"
  "accountSidTS (removeEachTS k items r) = accountSidTS r"
  "used (removeEachTS k items r) = used r"
  "sidFor (removeEachTS k items r) = sidFor r"
  "fresh (removeEachTS k items r) = fresh r"
  by (induction items arbitrary: r) (simp_all add: removeService_def)

lemma destroyMatching_requests:
  "requests (destroyMatching prefix k r) = requests r @ sweepRequests prefix k r"
  by (simp add: destroyMatching_def listServices_def sweepRequests_def removeEachTS_requests Let_def)

lemma destroyMatching_services:
  "services (destroyMatching prefix k r) k' =
     (if k' = k
      then filter (\<lambda>i. i ''sid'' \<notin> (\<lambda>j. j ''sid'') ` set (filter (labelledWith prefix) (services r k)))
             (services r k)
      else services r k')"
proof (cases "filter (labelledWith prefix) (services r k) = []")
  case True
  have "filter (\<lambda>i. i ''sid'' \<notin> (\<lambda>j. j ''sid'') ` set (filter (labelledWith prefix) (services r k)))
          (services r k) = services r k"
    unfolding True by simp
  moreover have "destroyMatching prefix k r = r\<lparr>requests := requests r @ [ListRequest k]\<rparr>"
    unfolding destroyMatching_def listServices_def using True by simp
  ultimately show ?thesis by simp
next
  case False
  then show ?thesis
    by (simp add: destroyMatching_def listServices_def removeEachTS_services Let_def)
qed

lemma destroyMatching_rest:
  "numbers (destroyMatching prefix k r) = numbers r"
  "accountSidTS (destroyMatching prefix k r) = accountSidTS r"
  "used (destroyMatching prefix k r) = used r"
  "sidFor (destroyMatching prefix k r) = sidFor r"
  "fresh (destroyMatching prefix k r) = fresh r"
  by (simp_all add: destroyMatching_def listServices_def removeEachTS_rest Let_def)


lemma updateNumber_sids:
  "map (\<lambda>p. p ''sid'') (numbers (updateNumber s (hookProps v m c) r)) = map (\<lambda>p. p ''sid'') (numbers r)"
  by (simp add: updateNumber_def hookProps_def map_add_def)


lemmas destroyMatching_facts =
  destroyMatching_requests destroyMatching_services destroyMatching_rest




lemma unbindEach_facts:
  "creations (requests (unbindEach ps r)) = creations (requests r)
   \<and> map (\<lambda>p. p ''sid'') (numbers (unbindEach ps r)) = map (\<lambda>p. p ''sid'') (numbers r)"
proof (induction ps arbitrary: r)
  case Nil
  show ?case by simp
next
  case (Cons pn ps)
  show ?case
    by (simp add: Cons.IH removePhoneWebhooks_def updateNumber_sids)
       (simp add: updateNumber_def creations_append)
qed

lemma removeAllPhoneWebhooks_facts:
  "\<exists>r. removeAllPhoneWebhooks this = this\<lparr>twilioClientTS := r\<rparr>
       \<and> creations (requests r) = creations (requests (twilioClientTS this))
       \<and> map (\<lambda>p. p ''sid'') (numbers r) = map (\<lambda>p. p ''sid'') (numbers (twilioClientTS this))"
proof -
  obtain found r where l: "listNumbers None None (twilioClientTS this) = (found, r)"
    by (cases "listNumbers None None (twilioClientTS this)")
  then have r: "creations (requests r) = creations (requests (twilioClientTS this))"
    "numbers r = numbers (twilioClientTS this)"
    by (auto simp: listNumbers_def creations_append)
  show ?thesis
  proof (cases "devPhoneNumbers found")
    case None
    with l r show ?thesis
      by (intro exI [of _ r]) (simp add: removeAllPhoneWebhooks_def)
  next
    case (Some ms)
    with l r unbindEach_facts [of ms r] show ?thesis
      by (intro exI [of _ "if length ms > 0 then unbindEach ms r else r"])
         (simp add: removeAllPhoneWebhooks_def)
  qed
qed

lemmas destroyAll_defs =
  destroyAllConversations_def destroyAllTwimlApps_def destroyAllApiKeys_def destroyAllSyncs_def
  destroyAllFunctions_def

lemma destroyAll_facts:
  "\<exists>r. destroyAllFunctions (destroyAllSyncs (destroyAllApiKeys (destroyAllTwimlApps
              (destroyAllConversations this)))) = this\<lparr>twilioClientTS := r\<rparr>
       \<and> creations (requests r) = creations (requests (twilioClientTS this))
       \<and> numbers r = numbers (twilioClientTS this)"
  by (intro exI [of _ "twilioClientTS (destroyAllFunctions (destroyAllSyncs (destroyAllApiKeys
              (destroyAllTwimlApps (destroyAllConversations this)))))"])
     (simp add: destroyAll_defs twilioCliIsConfiguredWithApiKeyTS_def destroyMatching_facts
        creations_append creations_sweepRequests)

lemma deleteAll_facts:
  "\<exists>r. deleteAll this = this\<lparr>twilioClientTS := r\<rparr>
       \<and> creations (requests r) = creations (requests (twilioClientTS this))
       \<and> map (\<lambda>p. p ''sid'') (numbers r) = map (\<lambda>p. p ''sid'') (numbers (twilioClientTS this))"
proof -
  from destroyAll_facts [of this] obtain r1 where
    d: "destroyAllFunctions (destroyAllSyncs (destroyAllApiKeys (destroyAllTwimlApps
              (destroyAllConversations this)))) = this\<lparr>twilioClientTS := r1\<rparr>"
       "creations (requests r1) = creations (requests (twilioClientTS this))"
       "numbers r1 = numbers (twilioClientTS this)"
    by blast
  from removeAllPhoneWebhooks_facts [of "this\<lparr>twilioClientTS := r1\<rparr>"] obtain r2 where
    e: "removeAllPhoneWebhooks (this\<lparr>twilioClientTS := r1\<rparr>) = this\<lparr>twilioClientTS := r2\<rparr>"
       "creations (requests r2) = creations (requests r1)"
       "map (\<lambda>p. p ''sid'') (numbers r2) = map (\<lambda>p. p ''sid'') (numbers r1)"
    by auto
  have "deleteAll this = this\<lparr>twilioClientTS := r2\<rparr>"
    by (simp only: deleteAll_def d(1) e(1))
  with d e show ?thesis by (intro exI [of _ r2]) simp
qed

lemma validatePropsAndFlagsTS_step:
  assumes "validatePropsAndFlagsTS isSms isVoice flags this = Inr this'"
  shows "\<exists>r c p. this' = this\<lparr>cliSettingsTS := c, pnsTS := p, twilioClientTS := r\<rparr>
           \<and> creations (requests r) = creations (requests (twilioClientTS this))
           \<and> numbers r = numbers (twilioClientTS this)"
  using assms
  by (intro exI [of _ "twilioClientTS this'"] exI [of _ "cliSettingsTS this'"] exI [of _ "pnsTS this'"])
     (auto simp: validatePropsAndFlagsTS_def listNumbers_def creations_append Let_def
           split: if_splits list.splits)

lemma reuseOrCreateApiKeyTS_step:
  assumes "reuseOrCreateApiKeyTS this = (key, this')"
  shows "\<exists>r p. this' = this\<lparr>twilioClientTS := r, currentProfileTS := p\<rparr>
           \<and> creations (requests r) = creations (requests (twilioClientTS this)) @
                 (if twilioCliIsConfiguredWithApiKeyTS this then []
                  else [CreateRequest Keys [(''friendlyName'', devPhoneNameTS this)]])
           \<and> numbers r = numbers (twilioClientTS this)"
  using assms
  by (intro exI [of _ "twilioClientTS this'"] exI [of _ "currentProfileTS this'"])
     (auto simp: reuseOrCreateApiKeyTS_def destroyApiKeysTS_def createService_def
                 destroyMatching_facts creations_append creations_sweepRequests Let_def
           split: if_splits)

lemma createConversationTS_step:
  assumes "createConversationTS this = (conv, this')"
  shows "\<exists>r. this' = this\<lparr>twilioClientTS := r\<rparr>
           \<and> creations (requests r) = creations (requests (twilioClientTS this)) @
                 [CreateRequest ConversationServices [(''friendlyName'', devPhoneNameTS this)],
                  CreateConversationRequest (conv ''serviceSid'') [(''friendlyName'', devPhoneNameTS this)],
                  CreateParticipantRequest (conv ''serviceSid'') (conv ''sid'') (devPhoneNameTS this)]
           \<and> numbers r = numbers (twilioClientTS this)"
  using assms
  by (intro exI [of _ "twilioClientTS this'"])
     (auto simp: createConversationTS_def destroyConversationsTS_def createService_def
                 createConversationIn_def createParticipant_def
                 destroyMatching_facts creations_append creations_sweepRequests Let_def)

lemma createSyncTS_step:
  assumes "createSyncTS this = (sy, this')"
  shows "\<exists>r. this' = this\<lparr>twilioClientTS := r\<rparr>
           \<and> creations (requests r) = creations (requests (twilioClientTS this)) @
                 [CreateRequest SyncServices [(''friendlyName'', devPhoneNameTS this)],
                  CreateSyncMapRequest (sy ''sid'') ''CallLog'']
           \<and> numbers r = numbers (twilioClientTS this)"
  using assms
  by (intro exI [of _ "twilioClientTS this'"])
     (auto simp: createSyncTS_def destroySyncsTS_def createService_def createSyncMap_def
                 CALL_LOG_MAP_NAME_def
                 destroyMatching_facts creations_append creations_sweepRequests Let_def)

lemma createFunction_step:
  assumes "createFunction constants this = Inr (deployed, this')"
    and "syncTS this = Some sy" and "conversationTS this = Some conv"
  shows "\<exists>r d. this' = this\<lparr>twilioClientTS := r,
                    voiceUrl := Some (''https://'' @ d @ ''/'' @ INCOMING_CALL_HANDLER constants),
                    voiceOutboundUrl := Some (''https://'' @ d @ ''/'' @ OUTBOUND_CALL_HANDLER constants),
                    smsUrl := Some (''https://'' @ d @ ''/'' @ INCOMING_MESSAGE_HANDLER constants),
                    statusCallback := Some (''https://'' @ d @ ''/'' @ SYNC_CALL_HISTORY constants)\<rparr>
           \<and> deployed ''domain'' = Some d
           \<and> creations (requests r) = creations (requests (twilioClientTS this)) @
                 [DeployRequest
                    [(''SYNC_SERVICE_SID'', sy ''sid''),
                     (''CONVERSATION_SID'', conv ''sid''),
                     (''CONVERSATION_SERVICE_SID'', conv ''serviceSid''),
                     (''DEV_PHONE_NAME'', Some (devPhoneNameTS this)),
                     (''DEV_PHONE_VERSION'', Some version),
                     (''CALL_LOG_MAP_NAME'', Some ''CallLog'')]]
           \<and> numbers r = numbers (twilioClientTS this)"
  using assms
  by (intro exI [of _ "twilioClientTS this'"] exI [of _ "the (deployed ''domain'')"])
     (auto simp: createFunction_def deployServerless_def CALL_LOG_MAP_NAME_def creations_append Let_def)

lemma createTwimlAppTS_step:
  assumes "createTwimlAppTS this = (app, this')"
  shows "\<exists>r. this' = this\<lparr>twilioClientTS := r\<rparr>
           \<and> requests r = requests (twilioClientTS this) @
                 sweepRequests (devPhoneNameTS this) Applications (twilioClientTS this) @
                 [CreateRequest Applications
                    ((case voiceOutboundUrl this of None \<Rightarrow> [] | Some u \<Rightarrow> [(''voiceUrl'', u)]) @
                     [(''friendlyName'', devPhoneNameTS this)])]
           \<and> numbers r = numbers (twilioClientTS this)"
  using assms
  by (intro exI [of _ "twilioClientTS this'"])
     (auto simp: createTwimlAppTS_def destroyTwimlAppsTS_def createService_def
                 destroyMatching_facts Let_def)

lemma bindPhoneNumber_facts:
  "requests (twilioClientTS (bindPhoneNumber this)) =
     requests (twilioClientTS this) @
     (case phoneNumberTS (cliSettingsTS (bindPhoneNumber this)) of
        None \<Rightarrow> []
      | Some pn \<Rightarrow> [UpdateNumberRequest (pn ''sid'') (voiceUrl this) (smsUrl this) (statusCallback this)])"
  "phoneNumberTS (cliSettingsTS (bindPhoneNumber this)) =
     map_option (\<lambda>p. p ++ hookProps (voiceUrl this) (smsUrl this) (statusCallback this))
       (phoneNumberTS (cliSettingsTS this))"
  "numbers (twilioClientTS (bindPhoneNumber this)) =
     (case phoneNumberTS (cliSettingsTS this) of
        None \<Rightarrow> numbers (twilioClientTS this)
      | Some p \<Rightarrow>
          map (\<lambda>q. if q ''sid'' = p ''sid''
                    then q ++ hookProps (voiceUrl this) (smsUrl this) (statusCallback this) else q)
            (numbers (twilioClientTS this)))"
  "conversationTS (bindPhoneNumber this) = conversationTS this"
  "syncTS (bindPhoneNumber this) = syncTS this"
  "serverless (bindPhoneNumber this) = serverless this"
  "voiceUrl (bindPhoneNumber this) = voiceUrl this"
  "smsUrl (bindPhoneNumber this) = smsUrl this"
  "statusCallback (bindPhoneNumber this) = statusCallback this"
  "voiceOutboundUrl (bindPhoneNumber this) = voiceOutboundUrl this"
  by (cases "phoneNumberTS (cliSettingsTS this)";
      simp add: bindPhoneNumber_def updatePhoneWebhooks_def updateNumber_def hookProps_def
        map_add_def Let_def)+

text \<open>The states \<^verbatim>\<open>run\<close> passes through when it succeeds.\<close>

lemma runTS_Inr:
  assumes "runTS constants isSms isVoice confirmed flags this = Inr this'"
  obtains t0 key t1 tc conv t2 sy t3 deployed t4 app t5 token where
    "validatePropsAndFlagsTS isSms isVoice flags this = Inr t0"
    "reuseOrCreateApiKeyTS t0 = (key, t1)"
    "tc = (if truthy (flags ''clear'') \<and> confirmed then deleteAll (t1\<lparr>apikeyTS := key\<rparr>)
           else t1\<lparr>apikeyTS := key\<rparr>)"
    "createConversationTS tc = (conv, t2)"
    "createSyncTS (t2\<lparr>conversationTS := Some conv\<rparr>) = (sy, t3)"
    "createFunction constants (t3\<lparr>syncTS := Some sy\<rparr>) = Inr (deployed, t4)"
    "createTwimlAppTS (t4\<lparr>serverless := Some deployed\<rparr>) = (app, t5)"
    "createJwtTS (t5\<lparr>twimlAppTS := app\<rparr>) = Inr token"
    "this' = bindPhoneNumber (t5\<lparr>twimlAppTS := app, jwtTS := Some token\<rparr>)"
proof -
  from assms obtain t0 where
    v: "validatePropsAndFlagsTS isSms isVoice flags this = Inr t0" and
    rest: "(case reuseOrCreateApiKeyTS t0 of (key, this) \<Rightarrow>
             let this = this\<lparr>apikeyTS := key\<rparr>;
                 this = (if truthy (flags ''clear'') \<and> confirmed then deleteAll this else this) in
             case createConversationTS this of (conv, this) \<Rightarrow>
             let this = this\<lparr>conversationTS := Some conv\<rparr> in
             case createSyncTS this of (sy, this) \<Rightarrow>
             let this = this\<lparr>syncTS := Some sy\<rparr> in
             andThen (createFunction constants this) (\<lambda>(deployed, this).
             let this = this\<lparr>serverless := Some deployed\<rparr> in
             case createTwimlAppTS this of (app, this) \<Rightarrow>
             let this = this\<lparr>twimlAppTS := app\<rparr> in
             andThen (createJwtTS this) (\<lambda>token.
             let this = this\<lparr>jwtTS := Some token\<rparr> in
             Inr (bindPhoneNumber this)))) = Inr this'"
    unfolding runTS_def andThen_Inr_iff by blast
  obtain key t1 where k: "reuseOrCreateApiKeyTS t0 = (key, t1)"
    by (cases "reuseOrCreateApiKeyTS t0")
  define tc where "tc = (if truthy (flags ''clear'') \<and> confirmed then deleteAll (t1\<lparr>apikeyTS := key\<rparr>)
           else t1\<lparr>apikeyTS := key\<rparr>)"
  obtain conv t2 where c: "createConversationTS tc = (conv, t2)"
    by (cases "createConversationTS tc")
  obtain sy t3 where s: "createSyncTS (t2\<lparr>conversationTS := Some conv\<rparr>) = (sy, t3)"
    by (cases "createSyncTS (t2\<lparr>conversationTS := Some conv\<rparr>)")
  from rest k c s have
    "andThen (createFunction constants (t3\<lparr>syncTS := Some sy\<rparr>)) (\<lambda>(deployed, this).
             let this = this\<lparr>serverless := Some deployed\<rparr> in
             case createTwimlAppTS this of (app, this) \<Rightarrow>
             let this = this\<lparr>twimlAppTS := app\<rparr> in
             andThen (createJwtTS this) (\<lambda>token.
             let this = this\<lparr>jwtTS := Some token\<rparr> in
             Inr (bindPhoneNumber this))) = Inr this'"
    by (simp add: Let_def tc_def [symmetric])
  then obtain deployed t4 where
    f: "createFunction constants (t3\<lparr>syncTS := Some sy\<rparr>) = Inr (deployed, t4)" and
    rest2: "(case createTwimlAppTS (t4\<lparr>serverless := Some deployed\<rparr>) of (app, this) \<Rightarrow>
             let this = this\<lparr>twimlAppTS := app\<rparr> in
             andThen (createJwtTS this) (\<lambda>token.
             let this = this\<lparr>jwtTS := Some token\<rparr> in
             Inr (bindPhoneNumber this))) = Inr this'"
    by (auto simp: andThen_Inr_iff Let_def)
  obtain app t5 where a: "createTwimlAppTS (t4\<lparr>serverless := Some deployed\<rparr>) = (app, t5)"
    by (cases "createTwimlAppTS (t4\<lparr>serverless := Some deployed\<rparr>)")
  from rest2 a obtain token where
    j: "createJwtTS (t5\<lparr>twimlAppTS := app\<rparr>) = Inr token" and
    r: "this' = bindPhoneNumber (t5\<lparr>twimlAppTS := app, jwtTS := Some token\<rparr>)"
    by (auto simp: andThen_Inr_iff Let_def)
  from v k tc_def c s f a j r show thesis by (rule that)
qed



lemma andThen_Inr: "andThen (Inr x) f = f x" by (simp add: andThen_def)
lemma andThen_Inl: "andThen (Inl e) f = Inl e" by (simp add: andThen_def)
lemma andThen_weak_cong: "m = m' \<Longrightarrow> andThen m f = andThen m' f" by simp

lemmas weak_congs = andThen_weak_cong let_weak_cong prod.case_cong_weak sum.case_cong_weak
  option.case_cong_weak list.case_cong_weak

lemmas sampleTS_defs =
  sampleSessionTS_def DevPhoneServerTS_def sampleAccountTS_def accountProfile_def sampleSidFor_def
  generateRandomPhoneName_def sampleNames_def forcedFlags_def isUrlSet_def

text \<open>
  Evaluation of \<^verbatim>\<open>run\<close> on the sample session, one method after the other: the requests
  sent, the webhooks of the numbers, the sid and label of every resource, the name, the
  key of the profile and the sid of the selected number.
\<close>

lemma runTS_sample:
  "map_sum id
     (\<lambda>t. (requests (twilioClientTS t),
           map (\<lambda>p. (p ''sid'', p ''smsUrl'', p ''voiceUrl'', p ''statusCallback''))
             (numbers (twilioClientTS t)),
           map (\<lambda>k. map (\<lambda>i. (i ''sid'', i ''friendlyName'')) (services (twilioClientTS t) k))
             [ConversationServices, Applications, Keys, SyncServices, ServerlessServices],
           devPhoneNameTS t, apiKey (currentProfileTS t),
           map_option (\<lambda>p. p ''sid'') (phoneNumberTS (cliSettingsTS t))))
     (runTS sampleNames isUrlSet isUrlSet False forcedFlags sampleSessionTS) =
   Inr ([ListNumbersRequest (Some ''+15551234567'') None,
         ListRequest Keys,
         CreateRequest Keys [(''friendlyName'', ''dev-phone-1234'')],
         ListRequest ConversationServices,
         CreateRequest ConversationServices [(''friendlyName'', ''dev-phone-1234'')],
         CreateConversationRequest (Some ''IS0'') [(''friendlyName'', ''dev-phone-1234'')],
         CreateParticipantRequest (Some ''IS0'') (Some ''x00'') ''dev-phone-1234'',
         ListRequest SyncServices,
         CreateRequest SyncServices [(''friendlyName'', ''dev-phone-1234'')],
         CreateSyncMapRequest (Some ''IS000'') ''CallLog'',
         DeployRequest
           [(''SYNC_SERVICE_SID'', Some ''IS000''),
            (''CONVERSATION_SID'', Some ''x00''),
            (''CONVERSATION_SERVICE_SID'', Some ''IS0''),
            (''DEV_PHONE_NAME'', Some ''dev-phone-1234''),
            (''DEV_PHONE_VERSION'', Some ''1.0.0-beta.5''),
            (''CALL_LOG_MAP_NAME'', Some ''CallLog'')],
         ListRequest Applications,
         CreateRequest Applications
           [(''voiceUrl'', ''https://x0000/outbound-call''), (''friendlyName'', ''dev-phone-1234'')],
         UpdateNumberRequest (Some ''PN1'') (Some ''https://x0000/incoming-call'')
           (Some ''https://x0000/incoming-message'') (Some ''https://x0000/sync-call-history'')],
        [(Some ''PN1'', Some ''https://x0000/incoming-message'', Some ''https://x0000/incoming-call'',
          Some ''https://x0000/sync-call-history''),
         (Some ''PN2'', Some [], Some [], None)],
        [[(Some ''IS0'', Some ''dev-phone-1234'')],
         [(Some ''AP00000'', Some ''dev-phone-1234'')],
         [(Some ''SK'', Some ''dev-phone-1234'')],
         [(Some ''IS000'', Some ''dev-phone-1234'')],
         [(Some ''ZS0000'', Some ''dev-phone-1234'')]],
        ''dev-phone-1234'', ''SK'', Some (Some ''PN1''))"
  apply (simp add: runTS_def validatePropsAndFlagsTS_def sampleTS_defs listNumbers_def truthy_def
           andThen_Inr andThen_Inl Let_def reformatTwilioPnsTS_def cong: weak_congs)
  apply (simp add: reuseOrCreateApiKeyTS_def twilioCliIsConfiguredWithApiKeyTS_def startsWith_def
           destroyApiKeysTS_def destroyMatching_def listServices_def createService_def profileKeyTS_def
           sampleSidFor_def Let_def cong: weak_congs)
  apply (simp add: createConversationTS_def destroyConversationsTS_def destroyMatching_def
           listServices_def createService_def createConversationIn_def createParticipant_def
           sampleSidFor_def Let_def cong: weak_congs)
  apply (simp add: createSyncTS_def destroySyncsTS_def destroyMatching_def listServices_def
           createService_def createSyncMap_def CALL_LOG_MAP_NAME_def sampleSidFor_def Let_def
           cong: weak_congs)
  apply (simp add: createFunction_def deployServerless_def andThen_Inr CALL_LOG_MAP_NAME_def
           version_def sampleSidFor_def Let_def cong: weak_congs)
  apply (simp add: createTwimlAppTS_def destroyTwimlAppsTS_def destroyMatching_def listServices_def
           createService_def sampleSidFor_def Let_def cong: weak_congs)
  apply (simp add: createJwtTS_def AccessToken_def addGrant_def truthy_def andThen_Inr Let_def
           cong: weak_congs)
  apply (simp add: bindPhoneNumber_def updatePhoneWebhooks_def updateNumber_def hookProps_def
           reformatPnTS_def map_add_def Let_def cong: weak_congs)
  done

lemma provisionedSampleTS_run:
  "runTS sampleNames isUrlSet isUrlSet False forcedFlags sampleSessionTS = Inr provisionedSampleTS"
proof (cases "runTS sampleNames isUrlSet isUrlSet False forcedFlags sampleSessionTS")
  case (Inl e)
  with runTS_sample show ?thesis by simp
next
  case (Inr t)
  then show ?thesis by (simp add: provisionedSampleTS_def)
qed

lemma provisionedSampleTS_facts:
  "requests (twilioClientTS provisionedSampleTS) =
     [ListNumbersRequest (Some ''+15551234567'') None,
      ListRequest Keys,
      CreateRequest Keys [(''friendlyName'', ''dev-phone-1234'')],
      ListRequest ConversationServices,
      CreateRequest ConversationServices [(''friendlyName'', ''dev-phone-1234'')],
      CreateConversationRequest (Some ''IS0'') [(''friendlyName'', ''dev-phone-1234'')],
      CreateParticipantRequest (Some ''IS0'') (Some ''x00'') ''dev-phone-1234'',
      ListRequest SyncServices,
      CreateRequest SyncServices [(''friendlyName'', ''dev-phone-1234'')],
      CreateSyncMapRequest (Some ''IS000'') ''CallLog'',
      DeployRequest
        [(''SYNC_SERVICE_SID'', Some ''IS000''),
         (''CONVERSATION_SID'', Some ''x00''),
         (''CONVERSATION_SERVICE_SID'', Some ''IS0''),
         (''DEV_PHONE_NAME'', Some ''dev-phone-1234''),
         (''DEV_PHONE_VERSION'', Some ''1.0.0-beta.5''),
         (''CALL_LOG_MAP_NAME'', Some ''CallLog'')],
      ListRequest Applications,
      CreateRequest Applications
        [(''voiceUrl'', ''https://x0000/outbound-call''), (''friendlyName'', ''dev-phone-1234'')],
      UpdateNumberRequest (Some ''PN1'') (Some ''https://x0000/incoming-call'')
        (Some ''https://x0000/incoming-message'') (Some ''https://x0000/sync-call-history'')]"
  "map (\<lambda>p. (p ''sid'', p ''smsUrl'', p ''voiceUrl'', p ''statusCallback''))
     (numbers (twilioClientTS provisionedSampleTS)) =
     [(Some ''PN1'', Some ''https://x0000/incoming-message'', Some ''https://x0000/incoming-call'',
       Some ''https://x0000/sync-call-history''),
      (Some ''PN2'', Some [], Some [], None)]"
  "map (\<lambda>i. (i ''sid'', i ''friendlyName'')) (services (twilioClientTS provisionedSampleTS) ConversationServices)
     = [(Some ''IS0'', Some ''dev-phone-1234'')]"
  "map (\<lambda>i. (i ''sid'', i ''friendlyName'')) (services (twilioClientTS provisionedSampleTS) Applications)
     = [(Some ''AP00000'', Some ''dev-phone-1234'')]"
  "map (\<lambda>i. (i ''sid'', i ''friendlyName'')) (services (twilioClientTS provisionedSampleTS) Keys)
     = [(Some ''SK'', Some ''dev-phone-1234'')]"
  "map (\<lambda>i. (i ''sid'', i ''friendlyName'')) (services (twilioClientTS provisionedSampleTS) SyncServices)
     = [(Some ''IS000'', Some ''dev-phone-1234'')]"
  "map (\<lambda>i. (i ''sid'', i ''friendlyName'')) (services (twilioClientTS provisionedSampleTS) ServerlessServices)
     = [(Some ''ZS0000'', Some ''dev-phone-1234'')]"
  "devPhoneNameTS provisionedSampleTS = ''dev-phone-1234''"
  "apiKey (currentProfileTS provisionedSampleTS) = ''SK''"
  "map_option (\<lambda>p. p ''sid'') (phoneNumberTS (cliSettingsTS provisionedSampleTS)) = Some (Some ''PN1'')"
  using runTS_sample unfolding provisionedSampleTS_run by simp_all


section \<open>Teardown after provisioning\<close>

text \<open>
  C1. The claim: provisioning followed at once by the teardown sweep (destroyConversations,
  destroyTwimlApps, destroyApiKeys, destroySyncs) leaves no remote resource whose label
  starts with the session's name. For the session \<^verbatim>\<open>dev-phone-123456\<close> on an account without
  resources the code leaves all four: after \<^verbatim>\<open>run\<close> and the sweep there is one conversation,
  one sync service, one key and one TwiML app labelled with the session's name.
\<close>

theorem provision_then_sweep_leaves_resources:
  "(case andThen (run isUrlSet isUrlSet Map.empty sampleSession) destroySweep of
      Inl e \<Rightarrow> []
    | Inr this \<Rightarrow>
        map (\<lambda>k. length (labelled (devPhoneName this) k (twilioClient this)))
          [Conversation, SyncService, Key, Application])
   = [1, 1, 1, 1]"
  by (simp add: destroySweep_def labelled_def method_defs sample_defs)

section \<open>Shutdown on a signal\<close>



section \<open>The order of provisioning\<close>

text \<open>
  C3, as amended. Whenever \<^verbatim>\<open>run\<close> of the later command succeeds it has created, in this
  order: the API key unless the profile holds one; the conversation service, a
  conversation in it, and the session as its participant; the sync service and its call
  log map; the serverless service, deployed with the sids of the sync service, the
  conversation and the conversation service and the name of the session in its
  environment; the TwiML app, whose voice URL is the outbound-call handler on the domain
  of the deployed service. The webhooks of the selected phone number, if any, are set
  after all of these, as the last request.
\<close>

theorem runTS_creation_order:
  assumes "runTS constants isSms isVoice confirmed flags this = Inr this'"
  shows "\<exists>conv sy deployed d earlier.
           conversationTS this' = Some conv \<and> syncTS this' = Some sy
         \<and> serverless this' = Some deployed \<and> deployed ''domain'' = Some d
         \<and> requests (twilioClientTS this') =
             earlier @
             (case phoneNumberTS (cliSettingsTS this') of
                None \<Rightarrow> []
              | Some pn \<Rightarrow>
                  [UpdateNumberRequest (pn ''sid'')
                     (Some (''https://'' @ d @ ''/'' @ INCOMING_CALL_HANDLER constants))
                     (Some (''https://'' @ d @ ''/'' @ INCOMING_MESSAGE_HANDLER constants))
                     (Some (''https://'' @ d @ ''/'' @ SYNC_CALL_HISTORY constants))])
         \<and> creations earlier =
             creations (requests (twilioClientTS this)) @
             (if twilioCliIsConfiguredWithApiKeyTS this then []
              else [CreateRequest Keys [(''friendlyName'', devPhoneNameTS this)]]) @
             [CreateRequest ConversationServices [(''friendlyName'', devPhoneNameTS this)],
              CreateConversationRequest (conv ''serviceSid'') [(''friendlyName'', devPhoneNameTS this)],
              CreateParticipantRequest (conv ''serviceSid'') (conv ''sid'') (devPhoneNameTS this),
              CreateRequest SyncServices [(''friendlyName'', devPhoneNameTS this)],
              CreateSyncMapRequest (sy ''sid'') ''CallLog'',
              DeployRequest
                [(''SYNC_SERVICE_SID'', sy ''sid''),
                 (''CONVERSATION_SID'', conv ''sid''),
                 (''CONVERSATION_SERVICE_SID'', conv ''serviceSid''),
                 (''DEV_PHONE_NAME'', Some (devPhoneNameTS this)),
                 (''DEV_PHONE_VERSION'', Some version),
                 (''CALL_LOG_MAP_NAME'', Some ''CallLog'')],
              CreateRequest Applications
                [(''voiceUrl'', ''https://'' @ d @ ''/'' @ OUTBOUND_CALL_HANDLER constants),
                 (''friendlyName'', devPhoneNameTS this)]]"
proof -
  from assms obtain t0 key t1 tc conv t2 sy t3 deployed t4 app t5 token where
    v: "validatePropsAndFlagsTS isSms isVoice flags this = Inr t0" and
    k: "reuseOrCreateApiKeyTS t0 = (key, t1)" and
    tc: "tc = (if truthy (flags ''clear'') \<and> confirmed then deleteAll (t1\<lparr>apikeyTS := key\<rparr>)
               else t1\<lparr>apikeyTS := key\<rparr>)" and
    c: "createConversationTS tc = (conv, t2)" and
    s: "createSyncTS (t2\<lparr>conversationTS := Some conv\<rparr>) = (sy, t3)" and
    f: "createFunction constants (t3\<lparr>syncTS := Some sy\<rparr>) = Inr (deployed, t4)" and
    a: "createTwimlAppTS (t4\<lparr>serverless := Some deployed\<rparr>) = (app, t5)" and
    r: "this' = bindPhoneNumber (t5\<lparr>twimlAppTS := app, jwtTS := Some token\<rparr>)"
    by (rule runTS_Inr)
  from validatePropsAndFlagsTS_step [OF v] obtain r0 c0 p0 where
    V: "t0 = this\<lparr>cliSettingsTS := c0, pnsTS := p0, twilioClientTS := r0\<rparr>"
       "creations (requests r0) = creations (requests (twilioClientTS this))"
    by blast
  from reuseOrCreateApiKeyTS_step [OF k] obtain r1 p1 where
    K: "t1 = t0\<lparr>twilioClientTS := r1, currentProfileTS := p1\<rparr>"
       "creations (requests r1) = creations (requests (twilioClientTS t0)) @
          (if twilioCliIsConfiguredWithApiKeyTS t0 then []
           else [CreateRequest Keys [(''friendlyName'', devPhoneNameTS t0)]])"
    by blast
  obtain rc where
    D: "tc = t1\<lparr>apikeyTS := key, twilioClientTS := rc\<rparr>"
       "creations (requests rc) = creations (requests (twilioClientTS t1))"
  proof (cases "truthy (flags ''clear'') \<and> confirmed")
    case True
    with deleteAll_facts [of "t1\<lparr>apikeyTS := key\<rparr>"] tc that show thesis by auto
  next
    case False
    with tc have "tc = t1\<lparr>apikeyTS := key, twilioClientTS := twilioClientTS t1\<rparr>" by simp
    then show thesis by (rule that) simp
  qed
  from createConversationTS_step [OF c] obtain r2 where
    C: "t2 = tc\<lparr>twilioClientTS := r2\<rparr>"
       "creations (requests r2) = creations (requests (twilioClientTS tc)) @
          [CreateRequest ConversationServices [(''friendlyName'', devPhoneNameTS tc)],
           CreateConversationRequest (conv ''serviceSid'') [(''friendlyName'', devPhoneNameTS tc)],
           CreateParticipantRequest (conv ''serviceSid'') (conv ''sid'') (devPhoneNameTS tc)]"
    by blast
  from createSyncTS_step [OF s] obtain r3 where
    S: "t3 = t2\<lparr>conversationTS := Some conv, twilioClientTS := r3\<rparr>"
       "creations (requests r3) = creations (requests (twilioClientTS t2)) @
          [CreateRequest SyncServices [(''friendlyName'', devPhoneNameTS t2)],
           CreateSyncMapRequest (sy ''sid'') ''CallLog'']"
    by auto
  have "syncTS (t3\<lparr>syncTS := Some sy\<rparr>) = Some sy"
    "conversationTS (t3\<lparr>syncTS := Some sy\<rparr>) = Some conv"
    using S(1) by simp_all
  from createFunction_step [OF f this] obtain r4 d where
    F: "t4 = t3\<lparr>syncTS := Some sy, twilioClientTS := r4,
                 voiceUrl := Some (''https://'' @ d @ ''/'' @ INCOMING_CALL_HANDLER constants),
                 voiceOutboundUrl := Some (''https://'' @ d @ ''/'' @ OUTBOUND_CALL_HANDLER constants),
                 smsUrl := Some (''https://'' @ d @ ''/'' @ INCOMING_MESSAGE_HANDLER constants),
                 statusCallback := Some (''https://'' @ d @ ''/'' @ SYNC_CALL_HISTORY constants)\<rparr>"
       "deployed ''domain'' = Some d"
       "creations (requests r4) = creations (requests (twilioClientTS t3)) @
          [DeployRequest
             [(''SYNC_SERVICE_SID'', sy ''sid''),
              (''CONVERSATION_SID'', conv ''sid''),
              (''CONVERSATION_SERVICE_SID'', conv ''serviceSid''),
              (''DEV_PHONE_NAME'', Some (devPhoneNameTS t3)),
              (''DEV_PHONE_VERSION'', Some version),
              (''CALL_LOG_MAP_NAME'', Some ''CallLog'')]]"
    by auto
  from createTwimlAppTS_step [OF a] obtain r5 where
    A: "t5 = t4\<lparr>serverless := Some deployed, twilioClientTS := r5\<rparr>"
       "requests r5 = requests (twilioClientTS t4) @
          sweepRequests (devPhoneNameTS t4) Applications (twilioClientTS t4) @
          [CreateRequest Applications
             ((case voiceOutboundUrl t4 of None \<Rightarrow> [] | Some u \<Rightarrow> [(''voiceUrl'', u)]) @
              [(''friendlyName'', devPhoneNameTS t4)])]"
    by auto
  let ?t = "t5\<lparr>twimlAppTS := app, jwtTS := Some token\<rparr>"
  have names: "devPhoneNameTS t4 = devPhoneNameTS this" "devPhoneNameTS t3 = devPhoneNameTS this"
    "devPhoneNameTS t2 = devPhoneNameTS this" "devPhoneNameTS tc = devPhoneNameTS this"
    "devPhoneNameTS t0 = devPhoneNameTS this"
    using V(1) K(1) D(1) C(1) S(1) F(1) by simp_all
  have conf: "twilioCliIsConfiguredWithApiKeyTS t0 = twilioCliIsConfiguredWithApiKeyTS this"
    using V(1) by (simp add: twilioCliIsConfiguredWithApiKeyTS_def)
  have clients: "twilioClientTS t4 = r4" "twilioClientTS t3 = r3" "twilioClientTS t2 = r2"
    "twilioClientTS tc = rc" "twilioClientTS t1 = r1" "twilioClientTS t0 = r0"
    using V(1) K(1) D(1) C(1) S(1) F(1) by simp_all
  have fields: "conversationTS ?t = Some conv" "syncTS ?t = Some sy" "serverless ?t = Some deployed"
    "voiceUrl ?t = Some (''https://'' @ d @ ''/'' @ INCOMING_CALL_HANDLER constants)"
    "smsUrl ?t = Some (''https://'' @ d @ ''/'' @ INCOMING_MESSAGE_HANDLER constants)"
    "statusCallback ?t = Some (''https://'' @ d @ ''/'' @ SYNC_CALL_HISTORY constants)"
    "voiceOutboundUrl t4 = Some (''https://'' @ d @ ''/'' @ OUTBOUND_CALL_HANDLER constants)"
    "twilioClientTS ?t = r5"
    using A(1) F(1) S(1) by simp_all
  have earlier: "creations (requests r5) =
      creations (requests (twilioClientTS this)) @
      (if twilioCliIsConfiguredWithApiKeyTS this then []
       else [CreateRequest Keys [(''friendlyName'', devPhoneNameTS this)]]) @
      [CreateRequest ConversationServices [(''friendlyName'', devPhoneNameTS this)],
       CreateConversationRequest (conv ''serviceSid'') [(''friendlyName'', devPhoneNameTS this)],
       CreateParticipantRequest (conv ''serviceSid'') (conv ''sid'') (devPhoneNameTS this),
       CreateRequest SyncServices [(''friendlyName'', devPhoneNameTS this)],
       CreateSyncMapRequest (sy ''sid'') ''CallLog'',
       DeployRequest
         [(''SYNC_SERVICE_SID'', sy ''sid''),
          (''CONVERSATION_SID'', conv ''sid''),
          (''CONVERSATION_SERVICE_SID'', conv ''serviceSid''),
          (''DEV_PHONE_NAME'', Some (devPhoneNameTS this)),
          (''DEV_PHONE_VERSION'', Some version),
          (''CALL_LOG_MAP_NAME'', Some ''CallLog'')],
       CreateRequest Applications
         [(''voiceUrl'', ''https://'' @ d @ ''/'' @ OUTBOUND_CALL_HANDLER constants),
          (''friendlyName'', devPhoneNameTS this)]]"
    by (simp add: A(2) F(3) S(2) C(2) D(2) K(2) V(2) names conf clients fields(7)
          creations_append creations_sweepRequests)
  have last: "requests (twilioClientTS this') =
      requests r5 @
      (case phoneNumberTS (cliSettingsTS this') of
         None \<Rightarrow> []
       | Some pn \<Rightarrow>
           [UpdateNumberRequest (pn ''sid'')
              (Some (''https://'' @ d @ ''/'' @ INCOMING_CALL_HANDLER constants))
              (Some (''https://'' @ d @ ''/'' @ INCOMING_MESSAGE_HANDLER constants))
              (Some (''https://'' @ d @ ''/'' @ SYNC_CALL_HISTORY constants))])"
    unfolding r by (simp only: bindPhoneNumber_facts(1) fields)
  have "conversationTS this' = Some conv" "syncTS this' = Some sy" "serverless this' = Some deployed"
    unfolding r by (simp_all only: bindPhoneNumber_facts fields)
  with F(2) earlier last show ?thesis by blast
qed

text \<open>C3, witness: the run that provisions the sample session.\<close>

theorem runTS_creation_order_witness:
  "runTS sampleNames isUrlSet isUrlSet False forcedFlags sampleSessionTS = Inr provisionedSampleTS
   \<and> (\<exists>conv sy deployed d earlier.
           conversationTS provisionedSampleTS = Some conv \<and> syncTS provisionedSampleTS = Some sy
         \<and> serverless provisionedSampleTS = Some deployed \<and> deployed ''domain'' = Some d
         \<and> requests (twilioClientTS provisionedSampleTS) =
             earlier @
             (case phoneNumberTS (cliSettingsTS provisionedSampleTS) of
                None \<Rightarrow> []
              | Some pn \<Rightarrow>
                  [UpdateNumberRequest (pn ''sid'')
                     (Some (''https://'' @ d @ ''/'' @ INCOMING_CALL_HANDLER sampleNames))
                     (Some (''https://'' @ d @ ''/'' @ INCOMING_MESSAGE_HANDLER sampleNames))
                     (Some (''https://'' @ d @ ''/'' @ SYNC_CALL_HISTORY sampleNames))])
         \<and> creations earlier =
             creations (requests (twilioClientTS sampleSessionTS)) @
             (if twilioCliIsConfiguredWithApiKeyTS sampleSessionTS then []
              else [CreateRequest Keys [(''friendlyName'', devPhoneNameTS sampleSessionTS)]]) @
             [CreateRequest ConversationServices [(''friendlyName'', devPhoneNameTS sampleSessionTS)],
              CreateConversationRequest (conv ''serviceSid'')
                [(''friendlyName'', devPhoneNameTS sampleSessionTS)],
              CreateParticipantRequest (conv ''serviceSid'') (conv ''sid'')
                (devPhoneNameTS sampleSessionTS),
              CreateRequest SyncServices [(''friendlyName'', devPhoneNameTS sampleSessionTS)],
              CreateSyncMapRequest (sy ''sid'') ''CallLog'',
              DeployRequest
                [(''SYNC_SERVICE_SID'', sy ''sid''),
                 (''CONVERSATION_SID'', conv ''sid''),
                 (''CONVERSATION_SERVICE_SID'', conv ''serviceSid''),
                 (''DEV_PHONE_NAME'', Some (devPhoneNameTS sampleSessionTS)),
                 (''DEV_PHONE_VERSION'', Some version),
                 (''CALL_LOG_MAP_NAME'', Some ''CallLog'')],
              CreateRequest Applications
                [(''voiceUrl'', ''https://'' @ d @ ''/'' @ OUTBOUND_CALL_HANDLER sampleNames),
                 (''friendlyName'', devPhoneNameTS sampleSessionTS)]])"
  using runTS_creation_order [OF provisionedSampleTS_run] provisionedSampleTS_run
  by (rule conjI [rotated])

text \<open>
  C3, the claim as stated fails. The claim puts the call-history store before the
  conversation; for the sample session the conversation service, the conversation and its
  participant are created before the sync service.
\<close>

theorem conversation_created_before_sync:
  "runTS sampleNames isUrlSet isUrlSet False forcedFlags sampleSessionTS = Inr provisionedSampleTS
   \<and> creations (requests (twilioClientTS provisionedSampleTS)) =
     [CreateRequest Keys [(''friendlyName'', ''dev-phone-1234'')],
      CreateRequest ConversationServices [(''friendlyName'', ''dev-phone-1234'')],
      CreateConversationRequest (Some ''IS0'') [(''friendlyName'', ''dev-phone-1234'')],
      CreateParticipantRequest (Some ''IS0'') (Some ''x00'') ''dev-phone-1234'',
      CreateRequest SyncServices [(''friendlyName'', ''dev-phone-1234'')],
      CreateSyncMapRequest (Some ''IS000'') ''CallLog'',
      DeployRequest
        [(''SYNC_SERVICE_SID'', Some ''IS000''),
         (''CONVERSATION_SID'', Some ''x00''),
         (''CONVERSATION_SERVICE_SID'', Some ''IS0''),
         (''DEV_PHONE_NAME'', Some ''dev-phone-1234''),
         (''DEV_PHONE_VERSION'', Some ''1.0.0-beta.5''),
         (''CALL_LOG_MAP_NAME'', Some ''CallLog'')],
      CreateRequest Applications
        [(''voiceUrl'', ''https://x0000/outbound-call''), (''friendlyName'', ''dev-phone-1234'')]]"
  by (simp add: provisionedSampleTS_run provisionedSampleTS_facts)

section \<open>Provisioning twice\<close>

text \<open>
  C4. The claim: a second \<^verbatim>\<open>run\<close> with the same session name first destroys the resources
  of the first and then creates fresh ones, so that at most one resource per kind carries
  the session's name. For the session \<^verbatim>\<open>dev-phone-123456\<close> the second run, started on the
  account as the first run left it, removes nothing: afterwards two conversations, two
  sync services, two keys and two TwiML apps carry the name.
\<close>

theorem second_run_duplicates_resources:
  "(case run isUrlSet isUrlSet Map.empty sampleSession of
      Inl e \<Rightarrow> []
    | Inr first \<Rightarrow>
        (case run isUrlSet isUrlSet Map.empty
                (DevPhoneServer ''123456'' accountProfile (twilioClient first)) of
           Inl e \<Rightarrow> []
         | Inr second \<Rightarrow>
             map (\<lambda>k. length (labelled ''dev-phone-123456'' k (twilioClient second)))
               [Conversation, SyncService, Key, Application]))
   = [2, 2, 2, 2]"
  by (simp add: labelled_def method_defs sample_defs)

section \<open>Selecting a phone number that is already configured\<close>



section \<open>The session token\<close>

text \<open>
  C6. Every token issued by \<^verbatim>\<open>createJwt\<close> of the later command has the name of the session
  as identity, is valid for 24 hours, and carries exactly three grants: a chat grant
  bound to the sid of the conversation service, a voice grant bound to the sid of the
  TwiML app with incoming calls allowed, and a sync grant bound to the sid of the sync
  service.
\<close>

theorem createJwtTS_token:
  assumes "createJwtTS this = Inr token"
  shows "\<exists>conv sy.
           conversationTS this = Some conv \<and> syncTS this = Some sy
         \<and> identity token = devPhoneNameTS this
         \<and> ttl token = Some (24 * 60 * 60)
         \<and> validitySeconds token = 24 * 60 * 60
         \<and> grants token =
             [ChatGrant (conv ''serviceSid''), VoiceGrant True (twimlAppTS this ''sid''),
              SyncGrant (sy ''sid'')]"
  using assms
  by (auto simp: createJwtTS_def AccessToken_def addGrant_def andThen_Inr_iff validitySeconds_def Let_def
           split: option.splits if_splits)

text \<open>C6, witness: a session that holds a key and the three resources.\<close>

theorem createJwtTS_token_witness:
  "\<exists>token. createJwtTS tokenSampleTS = Inr token
     \<and> identity token = ''dev-phone-1234''
     \<and> validitySeconds token = 86400
     \<and> grants token = [ChatGrant (Some ''IS1''), VoiceGrant True (Some ''AP1''), SyncGrant (Some ''IS2'')]"
proof -
  have "\<not> isl (createJwtTS tokenSampleTS)"
    by (simp add: createJwtTS_def tokenSampleTS_def sampleTS_defs AccessToken_def truthy_def andThen_def)
  then obtain token where h: "createJwtTS tokenSampleTS = Inr token"
    by (cases "createJwtTS tokenSampleTS") auto
  from createJwtTS_token [OF h] h show ?thesis
    by (auto simp: tokenSampleTS_def sampleTS_defs)
qed

text \<open>
  C7, as amended. Token issuance fails exactly when the conversation or the sync service
  has not been stored yet, or the account sid, the key sid or the key secret is missing
  or empty; the error is then a \<^verbatim>\<open>TypeError\<close> or the library's plain \<^verbatim>\<open>Error\<close>. A missing
  voice app id or a conversation or sync service without a sid does not make it fail.
\<close>

theorem createJwt_failure:
  "(isl (createJwt this) \<longleftrightarrow>
      conversation (cliSettings this) = None \<or> sync (cliSettings this) = None
      \<or> accountSid (twilioClient this) = []
      \<or> \<not> truthy (apikey this ''sid'') \<or> \<not> truthy (apikey this ''secret''))
   \<and> (\<forall>e. createJwt this = Inl e \<longrightarrow> (\<exists>m. e = TypeError m \<or> e = Error m))"
  by (auto simp: createJwt_def AccessToken_def andThen_def Let_def split: option.splits)

text \<open>
  C7, witness: issuance fails on the fresh sample session, which has no conversation yet,
  and succeeds on the provisioned one.
\<close>

theorem createJwt_failure_witness:
  "isl (createJwt sampleSession) \<and> conversation (cliSettings sampleSession) = None
   \<and> \<not> isl (createJwt provisionedSample)
   \<and> createJwt sampleSession = Inl (TypeError ''Cannot read properties of undefined (reading 'sid')'')"
proof -
  have a: "conversation (cliSettings sampleSession) = None" by (simp add: sample_defs)
  have b: "createJwt sampleSession =
             Inl (TypeError ''Cannot read properties of undefined (reading 'sid')'')"
    by (simp add: createJwt_def sample_defs)
  have c: "\<not> (conversation (cliSettings provisionedSample) = None
              \<or> sync (cliSettings provisionedSample) = None
              \<or> accountSid (twilioClient provisionedSample) = []
              \<or> \<not> truthy (apikey provisionedSample ''sid'')
              \<or> \<not> truthy (apikey provisionedSample ''secret''))"
    by (simp add: provisionedSample_def method_defs sample_defs)
  show ?thesis
    using createJwt_failure [of sampleSession] createJwt_failure [of provisionedSample] a b c
    by blast
qed

text \<open>
  C7, the claim as stated fails. With the conversation, the sync service and the key in
  place but no TwiML app created yet, issuance succeeds; the voice grant is bound to no
  application.
\<close>

theorem createJwt_without_voice_app:
  "map_sum id grants (createJwt (provisionedSample\<lparr>twimlApp := Map.empty\<rparr>)) =
     Inr [ChatGrant (Some ''CH''), VoiceGrant True None, SyncGrant (Some ''IS0'')]"
  by (simp add: provisionedSample_def method_defs sample_defs)

section \<open>Choosing another phone number\<close>

text \<open>
  C8. When the lookup of the requested number returns no match or more than one, the
  handler of the later command answers with status 400 and the message that the phone
  number was not found; the webhooks of every number, the number bound so far among
  them, and the cached phone-number setting are left as they were. The only trace is the
  lookup itself.
\<close>

theorem choosePhoneNumber_not_found:
  assumes "length (fst (listNumbers requested (Some 20) (twilioClientTS this))) \<noteq> 1"
  shows "fst (choosePhoneNumber requested this) = (400, ''Phone number not found!'')
       \<and> numbers (twilioClientTS (snd (choosePhoneNumber requested this))) = numbers (twilioClientTS this)
       \<and> cliSettingsTS (snd (choosePhoneNumber requested this)) = cliSettingsTS this
       \<and> snd (choosePhoneNumber requested this) =
           this\<lparr>twilioClientTS :=
                  (twilioClientTS this)\<lparr>requests := requests (twilioClientTS this) @
                                             [ListNumbersRequest requested (Some 20)]\<rparr>\<rparr>"
  using assms
  by (simp add: choosePhoneNumber_def listNumbers_def reformatTwilioPnsTS_def Let_def)

text \<open>
  C8, witness: a number the sample account does not have is requested, and a request
  without a number, which matches both numbers of the account.
\<close>

theorem choosePhoneNumber_not_found_witness:
  "fst (choosePhoneNumber (Some ''+15550000000'') boundSampleTS) = (400, ''Phone number not found!'')
   \<and> fst (choosePhoneNumber None boundSampleTS) = (400, ''Phone number not found!'')
   \<and> numbers (twilioClientTS (snd (choosePhoneNumber None boundSampleTS)))
       = numbers (twilioClientTS boundSampleTS)
   \<and> cliSettingsTS (snd (choosePhoneNumber None boundSampleTS)) = cliSettingsTS boundSampleTS"
proof -
  have a: "length (fst (listNumbers (Some ''+15550000000'') (Some 20) (twilioClientTS boundSampleTS))) \<noteq> 1"
    by (simp add: listNumbers_def boundSampleTS_def sampleTS_defs)
  have b: "length (fst (listNumbers None (Some 20) (twilioClientTS boundSampleTS))) \<noteq> 1"
    by (simp add: listNumbers_def boundSampleTS_def sampleTS_defs)
  from choosePhoneNumber_not_found [OF a] choosePhoneNumber_not_found [OF b] show ?thesis
    by simp
qed

end
